theory Spec2Isabelle
  imports Complex_Main "HOL-Library.AList"
begin

section \<open>JavaScript values and the runtime\<close>

text \<open>
  The finance core is JavaScript on Mongoose. A number is an IEEE double: every finite
  double is a rational, so the finite numbers are modelled as \<open>rat\<close> (a superset of the
  doubles, on which \<open><\<close>, \<open>>\<close> and \<open>===\<close> are exact) next to the two infinities and NaN.
  \<open>JHost\<close> stands for any object that is neither a plain object nor a Map (an array, a
  Date, an ObjectId, a function); its string is a description only.
\<close>

type_synonym objectId = string

datatype jsnum = Finite rat | PosInf | NegInf | NaN

datatype jsval =
    JUndefined
  | JNull
  | JBool bool
  | JNum jsnum
  | JStr string
  | JObject "(string \<times> jsval) list"
  | JMap "(string \<times> jsval) list"
  | JHost string

text \<open>\<open>typeof v === 'number'\<close>\<close>

fun typeofNumber :: "jsval \<Rightarrow> bool" where
  "typeofNumber (JNum n) = True"
| "typeofNumber v = False"

text \<open>
  What the code asks of the language runtime, taken as parameters: the theorems hold for
  every runtime.
  \<^item> \<open>NumberToString\<close>: the string a number becomes when \<open>String.prototype.replace\<close>
    inserts the callback's result;
  \<^item> \<open>FunctionCall src\<close>: the outcome of \<open>Function(src)()\<close>, \<open>Inl\<close> the message of the
    exception thrown by the constructor or by the call, \<open>Inr\<close> the value returned;
  \<^item> \<open>StringToNumber\<close>: the number a string is coerced to by \<open><\<close> and \<open>>\<close>;
  \<^item> \<open>ToPrimitive\<close>: the primitive an object operand of \<open><\<close> and \<open>>\<close> is coerced to;
  \<^item> \<open>GetOther v p\<close>: the value of a property read \<open>v[p]\<close> that is not an own property
    of a modelled plain object (inherited properties, properties of strings, Maps and
    host objects, document properties outside the modelled ones).
\<close>

record runtime =
  NumberToString :: "jsnum \<Rightarrow> string"
  FunctionCall :: "string \<Rightarrow> string + jsval"
  StringToNumber :: "string \<Rightarrow> jsnum"
  ToPrimitive :: "jsval \<Rightarrow> jsval"
  GetOther :: "jsval \<Rightarrow> string \<Rightarrow> jsval"

text \<open>The names every plain object inherits from \<open>Object.prototype\<close> (the \<open>in\<close> operator
  sees them).\<close>

definition objectPrototypeNames :: "string list" where
  "objectPrototypeNames =
     [''constructor'', ''__defineGetter__'', ''__defineSetter__'', ''hasOwnProperty'',
      ''__lookupGetter__'', ''__lookupSetter__'', ''isPrototypeOf'',
      ''propertyIsEnumerable'', ''toString'', ''valueOf'', ''__proto__'',
      ''toLocaleString'']"

section \<open>Data model (models/FinanceRecord.js, models/FinanceFieldDefinition.js)\<close>

text \<open>
  A Mongoose Map is an association list in insertion order; \<open>map_of\<close> is \<open>get\<close>,
  \<open>AList.update\<close> is \<open>set\<close> (an existing key keeps its place, a new one is appended).
  \<open>fd_isFinalAmount\<close> is the truthiness of \<open>fd.config && fd.config.isFinalAmount\<close>;
  \<open>fd_expression = None\<close> is an absent or null expression.
\<close>

type_synonym fieldMap = "(string \<times> jsval) list"

record category =
  cat_id :: objectId
  cat_orgId :: objectId

record fieldDef =
  fd_id :: objectId
  fd_orgId :: objectId
  fd_name :: string
  fd_type :: string
  fd_expression :: "string option"
  fd_applicableTo :: "string list"
  fd_isFinalAmount :: bool

record financeRecord =
  r_id :: objectId
  r_orgId :: objectId
  r_type :: string
  r_categoryId :: "objectId option"
  r_status :: string
  r_fields :: fieldMap
  r_frequency :: string
  approvalsRequired :: "objectId list"
  approvalsGiven :: "objectId list"

text \<open>Every \<open>throw new Error(...)\<close> and \<open>next(new Error(...))\<close> of the save path, by its
  message, with the names the message interpolates.\<close>

datatype saveError =
    SchemaValidationFailed string
  | CategoryNotFound
  | CategoryOtherOrganization
  | InvalidFieldReferences
  | FieldNotApplicable string string
  | NonNumericReference string string
  | FormulaEvaluationError string string
  | FinalAmountCount
  | FinalAmountNotNumeric string
  | PartialPaymentNotNumeric
  | PaidExceedsTotal

section \<open>evaluateFormulas (models/FinanceRecord.js)\<close>

text \<open>
  \<open>expr.replace(/\b[a-zA-Z_]\w*\b/g, callback)\<close>. \<open>\w\<close> is \<open>[A-Za-z0-9_]\<close>. A match starts
  at a word boundary with a letter or underscore and, \<open>\w*\<close> being greedy and followed by
  \<open>\b\<close>, runs to the end of the maximal run of word characters; a run that starts with a
  digit holds no word boundary inside and is not matched at all. So the expression is cut
  into its maximal runs of word characters and its other characters, one by one, and the
  callback is applied, left to right, to the runs that start with a letter or underscore.
\<close>

definition isIdentStart :: "char \<Rightarrow> bool" where
  "isIdentStart c =
     (c \<in> set ''abcdefghijklmnopqrstuvwxyzABCDEFGHIJKLMNOPQRSTUVWXYZ_'')"

definition isWordChar :: "char \<Rightarrow> bool" where
  "isWordChar c = (isIdentStart c \<or> c \<in> set ''0123456789'')"

fun wordRuns :: "string \<Rightarrow> string \<Rightarrow> string list" where
  "wordRuns run [] = (if run = [] then [] else [run])"
| "wordRuns run (c # cs) =
     (if isWordChar c then wordRuns (run @ [c]) cs
      else (if run = [] then [] else [run]) @ [c] # wordRuns [] cs)"

fun replaceRuns :: "(string \<Rightarrow> saveError + string) \<Rightarrow> string list \<Rightarrow> saveError + string" where
  "replaceRuns f [] = Inr []"
| "replaceRuns f ([] # ts) = replaceRuns f ts"
| "replaceRuns f ((c # cs) # ts) =
     (if isIdentStart c then
        (case f (c # cs) of
           Inl e \<Rightarrow> Inl e
         | Inr r \<Rightarrow> (case replaceRuns f ts of Inl e \<Rightarrow> Inl e | Inr out \<Rightarrow> Inr (r @ out)))
      else (case replaceRuns f ts of Inl e \<Rightarrow> Inl e | Inr out \<Rightarrow> Inr ((c # cs) @ out)))"

definition replaceIdentifiers :: "(string \<Rightarrow> saveError + string) \<Rightarrow> string \<Rightarrow> saveError + string" where
  "replaceIdentifiers f expr = replaceRuns f (wordRuns [] expr)"

text \<open>
  \<open>nameToDef\<close> is only read as \<open>if (!nameToDef[fieldName]) continue\<close>: the read is truthy
  for the name of a resolved definition and for every name inherited from
  \<open>Object.prototype\<close>.
  \<open>nameToValue[fieldName] = value\<close> creates an own property, except for the key
  \<open>__proto__\<close>, which never becomes an own property. (An assignment to \<open>__proto__\<close> of an
  object or of null would also replace the prototype; the model does not follow the
  replaced prototype.)
\<close>

definition nameToDefTruthy :: "fieldDef list \<Rightarrow> string \<Rightarrow> bool" where
  "nameToDefTruthy fieldDefs k =
     (k \<in> set (map fd_name fieldDefs) \<or> k \<in> set objectPrototypeNames)"

fun nameToValue :: "fieldDef list \<Rightarrow> fieldMap \<Rightarrow> (string \<rightharpoonup> jsval) \<Rightarrow> (string \<rightharpoonup> jsval)" where
  "nameToValue fieldDefs [] acc = acc"
| "nameToValue fieldDefs ((k, v) # kvs) acc =
     (if \<not> nameToDefTruthy fieldDefs k then nameToValue fieldDefs kvs acc
      else if k = ''__proto__'' then nameToValue fieldDefs kvs acc
      else nameToValue fieldDefs kvs (acc(k \<mapsto> v)))"

text \<open>
  The replace callback. \<open>match in nameToValue\<close> holds for an own key and for an inherited
  name; the value read for an inherited name is a function or an object, never a number.
  An identifier that is not \<open>in\<close> the lookup becomes the text \<open>0\<close>.
\<close>

definition replaceCallback :: "runtime \<Rightarrow> (string \<rightharpoonup> jsval) \<Rightarrow> string \<Rightarrow> string \<Rightarrow> saveError + string" where
  "replaceCallback rt ntv fdName m =
     (case ntv m of
        Some (JNum n) \<Rightarrow> Inr (NumberToString rt n)
      | Some v \<Rightarrow> Inl (NonNumericReference fdName m)
      | None \<Rightarrow>
          (if m \<in> set objectPrototypeNames then Inl (NonNumericReference fdName m)
           else Inr ''0''))"

text \<open>The source text handed to \<open>Function\<close>: \<open>'"use strict";return (' + safeExpr + ')'\<close>.\<close>

definition functionSource :: "string \<Rightarrow> string" where
  "functionSource safeExpr =
     CHR 0x22 # ''use strict'' @ CHR 0x22 # '';return ('' @ safeExpr @ '')''"

text \<open>The body of the loop over the resolved definitions: a definition that is not a
  formula, or whose expression is absent or empty, is passed over.\<close>

definition evaluateOne :: "runtime \<Rightarrow> (string \<rightharpoonup> jsval) \<Rightarrow> fieldDef \<Rightarrow> fieldMap \<Rightarrow> saveError + fieldMap" where
  "evaluateOne rt ntv fd flds =
     (if fd_type fd = ''formula'' then
        (case fd_expression fd of
           None \<Rightarrow> Inr flds
         | Some expr \<Rightarrow>
             (if expr = [] then Inr flds
              else
                (case replaceIdentifiers (replaceCallback rt ntv (fd_name fd)) expr of
                   Inl e \<Rightarrow> Inl e
                 | Inr safeExpr \<Rightarrow>
                     (case FunctionCall rt (functionSource safeExpr) of
                        Inl msg \<Rightarrow> Inl (FormulaEvaluationError (fd_name fd) msg)
                      | Inr result \<Rightarrow> Inr (AList.update (fd_name fd) result flds)))))
      else Inr flds)"

text \<open>The loop. \<open>nameToValue\<close> is built once, before the loop: a formula that names
  another formula field reads the value the record carried on entry.\<close>

fun evaluateEach :: "runtime \<Rightarrow> (string \<rightharpoonup> jsval) \<Rightarrow> fieldDef list \<Rightarrow> fieldMap \<Rightarrow> saveError + fieldMap" where
  "evaluateEach rt ntv [] flds = Inr flds"
| "evaluateEach rt ntv (fd # fds) flds =
     (case evaluateOne rt ntv fd flds of
        Inl e \<Rightarrow> Inl e
      | Inr flds1 \<Rightarrow> evaluateEach rt ntv fds flds1)"

definition evaluateFormulas :: "runtime \<Rightarrow> fieldMap \<Rightarrow> fieldDef list \<Rightarrow> saveError + fieldMap" where
  "evaluateFormulas rt flds fieldDefs =
     evaluateEach rt (nameToValue fieldDefs flds Map.empty) fieldDefs flds"

section \<open>The pre-save hook (models/FinanceRecord.js)\<close>

record approvalRule =
  rule_orgId :: objectId
  conditions :: "(string \<times> (string \<times> jsval) list) list"
  requiredApprovers :: "objectId list"

record partner =
  p_id :: objectId
  p_orgId :: objectId
  p_type :: string

text \<open>The collections, each in the order the store returns its documents.\<close>

record database =
  categories :: "category list"
  fieldDefinitions :: "fieldDef list"
  financeRecords :: "financeRecord list"
  approvalRules :: "approvalRule list"
  partners :: "partner list"

text \<open>
  Mongoose validates a document against its schema before the schema's own
  \<open>pre('save')\<close> hooks run: \<open>type\<close>, \<open>status\<close> and \<open>recurrence.frequency\<close> are enums,
  \<open>categoryId\<close> is required. The argument of the error is the first failing path.
\<close>

definition schemaValidate :: "financeRecord \<Rightarrow> saveError + unit" where
  "schemaValidate r =
     (if r_type r \<notin> set [''expense'', ''revenue''] then Inl (SchemaValidationFailed ''type'')
      else if r_categoryId r = None then Inl (SchemaValidationFailed ''categoryId'')
      else if r_status r \<notin> set [''draft'', ''pending_approval'', ''approved'', ''paid'', ''completed'']
        then Inl (SchemaValidationFailed ''status'')
      else if r_frequency r \<notin> set [''none'', ''daily'', ''weekly'', ''monthly'', ''quarterly'', ''yearly'']
        then Inl (SchemaValidationFailed ''recurrence.frequency'')
      else Inr ())"

text \<open>\<open>typeAllowed\<close> of validateReferences, and the loop that throws at the first
  definition that is not applicable.\<close>

definition typeAllowed :: "string \<Rightarrow> fieldDef \<Rightarrow> bool" where
  "typeAllowed recType fd =
     (recType \<in> set (fd_applicableTo fd) \<or> ''both'' \<in> set (fd_applicableTo fd))"

fun firstNotAllowed :: "string \<Rightarrow> fieldDef list \<Rightarrow> string option" where
  "firstNotAllowed recType [] = None"
| "firstNotAllowed recType (fd # fds) =
     (if typeAllowed recType fd then firstNotAllowed recType fds else Some (fd_name fd))"

definition validateReferences :: "database \<Rightarrow> financeRecord \<Rightarrow> saveError + fieldDef list" where
  "validateReferences db record =
     (case (case r_categoryId record of
              None \<Rightarrow> None
            | Some c \<Rightarrow> find (\<lambda>x. cat_id x = c) (categories db)) of
        None \<Rightarrow> Inl CategoryNotFound
      | Some cat \<Rightarrow>
          if cat_orgId cat \<noteq> r_orgId record then Inl CategoryOtherOrganization
          else if length (r_fields record) > 0 then
            (let fieldNames = map fst (r_fields record);
                 fieldDefs = filter (\<lambda>fd. fd_orgId fd = r_orgId record \<and> fd_name fd \<in> set fieldNames)
                               (fieldDefinitions db)
             in if length fieldDefs \<noteq> length fieldNames then Inl InvalidFieldReferences
                else (case firstNotAllowed (r_type record) fieldDefs of
                        Some n \<Rightarrow> Inl (FieldNotApplicable n (r_type record))
                      | None \<Rightarrow> Inr fieldDefs))
          else Inr [])"

text \<open>\<open>Map.get\<close>: undefined for an absent key.\<close>

definition mapGet :: "fieldMap \<Rightarrow> string \<Rightarrow> jsval" where
  "mapGet m k = (case map_of m k of Some v \<Rightarrow> v | None \<Rightarrow> JUndefined)"

definition mapHas :: "fieldMap \<Rightarrow> string \<Rightarrow> bool" where
  "mapHas m k = (k \<in> set (map fst m))"

text \<open>\<open>paid > total\<close> on two numbers: false as soon as one of them is NaN.\<close>

fun numLess :: "jsnum \<Rightarrow> jsnum \<Rightarrow> bool" where
  "numLess (Finite a) (Finite b) = (a < b)"
| "numLess NegInf (Finite b) = True"
| "numLess NegInf PosInf = True"
| "numLess (Finite a) PosInf = True"
| "numLess x y = False"

text \<open>The checks of the hook after the formulas: the final amount, then the partial
  payment.\<close>

definition checkAmounts :: "fieldDef list \<Rightarrow> fieldMap \<Rightarrow> saveError + unit" where
  "checkAmounts fieldDefs flds =
     (let finalAmountFields = filter fd_isFinalAmount fieldDefs
      in case finalAmountFields of
           [fd] \<Rightarrow>
             (if \<not> typeofNumber (mapGet flds (fd_name fd))
              then Inl (FinalAmountNotNumeric (fd_name fd))
              else if mapHas flds ''total_amount'' \<and> mapHas flds ''amount_paid'' then
                (case (mapGet flds ''total_amount'', mapGet flds ''amount_paid'') of
                   (JNum totalAmount, JNum amountPaid) \<Rightarrow>
                     (if numLess totalAmount amountPaid then Inl PaidExceedsTotal else Inr ())
                 | other \<Rightarrow> Inl PartialPaymentNotNumeric)
              else Inr ())
         | other \<Rightarrow> Inl FinalAmountCount)"

definition preSave :: "runtime \<Rightarrow> database \<Rightarrow> financeRecord \<Rightarrow> saveError + financeRecord" where
  "preSave rt db record =
     (case schemaValidate record of
        Inl e \<Rightarrow> Inl e
      | Inr u \<Rightarrow>
     (case validateReferences db record of
        Inl e \<Rightarrow> Inl e
      | Inr fieldDefs \<Rightarrow>
     (case (if length fieldDefs > 0 then evaluateFormulas rt (r_fields record) fieldDefs
            else Inr (r_fields record)) of
        Inl e \<Rightarrow> Inl e
      | Inr flds \<Rightarrow>
     (case checkAmounts fieldDefs flds of
        Inl e \<Rightarrow> Inl e
      | Inr u \<Rightarrow> Inr (record\<lparr>r_fields := flds\<rparr>)))))"

text \<open>\<open>record.save()\<close>: the hook, then the write. A stored document with the same
  \<open>_id\<close> is replaced, a new one is appended.\<close>

definition storeRecord :: "financeRecord \<Rightarrow> financeRecord list \<Rightarrow> financeRecord list" where
  "storeRecord r rs =
     (if r_id r \<in> set (map r_id rs) then map (\<lambda>x. if r_id x = r_id r then r else x) rs
      else rs @ [r])"

definition save :: "runtime \<Rightarrow> database \<Rightarrow> financeRecord \<Rightarrow> saveError + (financeRecord \<times> database)" where
  "save rt db record =
     (case preSave rt db record of
        Inl e \<Rightarrow> Inl e
      | Inr r \<Rightarrow> Inr (r, db\<lparr>financeRecords := storeRecord r (financeRecords db)\<rparr>))"

section \<open>passesCondition (controllers/financeController.js)\<close>

text \<open>
  The operators \<open><\<close>, \<open>>\<close> and \<open>===\<close> of the language. \<open>a < b\<close> coerces both operands to
  primitives; two strings are compared by code units, anything else as numbers, and a
  comparison with NaN is false. \<open>a > b\<close> is \<open>b < a\<close>. \<open>===\<close> never coerces; two objects are
  equal only when they are the same object, which a value read from the record and a
  literal read from a rule never are.
\<close>

fun isPrimitive :: "jsval \<Rightarrow> bool" where
  "isPrimitive (JObject ps) = False"
| "isPrimitive (JMap m) = False"
| "isPrimitive (JHost d) = False"
| "isPrimitive v = True"

definition toPrimitive :: "runtime \<Rightarrow> jsval \<Rightarrow> jsval" where
  "toPrimitive rt v = (if isPrimitive v then v else ToPrimitive rt v)"

fun toNumber :: "runtime \<Rightarrow> jsval \<Rightarrow> jsnum" where
  "toNumber rt JUndefined = NaN"
| "toNumber rt JNull = Finite 0"
| "toNumber rt (JBool b) = Finite (if b then 1 else 0)"
| "toNumber rt (JNum n) = n"
| "toNumber rt (JStr s) = StringToNumber rt s"
| "toNumber rt v = NaN"

fun strLess :: "string \<Rightarrow> string \<Rightarrow> bool" where
  "strLess [] [] = False"
| "strLess [] (y # ys) = True"
| "strLess (x # xs) [] = False"
| "strLess (x # xs) (y # ys) =
     ((of_char x :: nat) < of_char y \<or> (x = y \<and> strLess xs ys))"

definition jsLess :: "runtime \<Rightarrow> jsval \<Rightarrow> jsval \<Rightarrow> bool" where
  "jsLess rt a b =
     (case (toPrimitive rt a, toPrimitive rt b) of
        (JStr s, JStr t) \<Rightarrow> strLess s t
      | (pa, pb) \<Rightarrow> numLess (toNumber rt pa) (toNumber rt pb))"

definition jsGreater :: "runtime \<Rightarrow> jsval \<Rightarrow> jsval \<Rightarrow> bool" where
  "jsGreater rt a b = jsLess rt b a"

fun numEquals :: "jsnum \<Rightarrow> jsnum \<Rightarrow> bool" where
  "numEquals (Finite a) (Finite b) = (a = b)"
| "numEquals PosInf PosInf = True"
| "numEquals NegInf NegInf = True"
| "numEquals x y = False"

fun strictEquals :: "jsval \<Rightarrow> jsval \<Rightarrow> bool" where
  "strictEquals JUndefined JUndefined = True"
| "strictEquals JNull JNull = True"
| "strictEquals (JBool a) (JBool b) = (a = b)"
| "strictEquals (JNum a) (JNum b) = numEquals a b"
| "strictEquals (JStr a) (JStr b) = (a = b)"
| "strictEquals a b = False"

text \<open>\<open>path.split('.')\<close>\<close>

fun splitDot :: "string \<Rightarrow> string \<Rightarrow> string list" where
  "splitDot part [] = [part]"
| "splitDot part (c # cs) =
     (if c = CHR ''.'' then part # splitDot [] cs else splitDot (part @ [c]) cs)"

text \<open>\<open>val[p]\<close>: an own property of a plain object, anything else through the runtime.\<close>

definition getProp :: "runtime \<Rightarrow> jsval \<Rightarrow> string \<Rightarrow> jsval" where
  "getProp rt v p =
     (case v of
        JObject props \<Rightarrow> (case map_of props p of Some x \<Rightarrow> x | None \<Rightarrow> GetOther rt v p)
      | other \<Rightarrow> GetOther rt v p)"

text \<open>\<open>parts[parts.indexOf(p) + 1]\<close>: the segment after the first occurrence of \<open>p\<close>,
  undefined (\<open>None\<close>) when there is none; \<open>Map.get(undefined)\<close> is undefined.\<close>

fun nextAfter :: "string \<Rightarrow> string list \<Rightarrow> string option" where
  "nextAfter p [] = None"
| "nextAfter p (x # xs) =
     (if x = p then (case xs of [] \<Rightarrow> None | y # ys \<Rightarrow> Some y) else nextAfter p xs)"

text \<open>The walk along the segments: \<open>walkPath rt parts rest val\<close> is the loop
  \<open>for (const p of parts)\<close> with \<open>rest\<close> still to visit.\<close>

fun walkPath :: "runtime \<Rightarrow> string list \<Rightarrow> string list \<Rightarrow> jsval \<Rightarrow> jsval" where
  "walkPath rt parts [] val = val"
| "walkPath rt parts (p # ps) val =
     (if val = JUndefined \<or> val = JNull then val
      else if p = ''fields'' then
        (case getProp rt val ''fields'' of
           JMap m \<Rightarrow> (case nextAfter p parts of None \<Rightarrow> JUndefined | Some fieldId \<Rightarrow> mapGet m fieldId)
         | other \<Rightarrow> walkPath rt parts ps (getProp rt val p))
      else walkPath rt parts ps (getProp rt val p))"

definition resolvePath :: "runtime \<Rightarrow> string \<Rightarrow> jsval \<Rightarrow> jsval" where
  "resolvePath rt path recordDoc = walkPath rt (splitDot [] path) (splitDot [] path) recordDoc"

text \<open>The inner loop over \<open>Object.entries(cond)\<close>: an operator other than \<open>$gt\<close>, \<open>$lt\<close>,
  \<open>$eq\<close> is skipped.\<close>

fun operatorsHold :: "runtime \<Rightarrow> jsval \<Rightarrow> (string \<times> jsval) list \<Rightarrow> bool" where
  "operatorsHold rt val [] = True"
| "operatorsHold rt val ((opr, cmpVal) # rest) =
     (if opr = ''$gt'' \<and> \<not> jsGreater rt val cmpVal then False
      else if opr = ''$lt'' \<and> \<not> jsLess rt val cmpVal then False
      else if opr = ''$eq'' \<and> \<not> strictEquals val cmpVal then False
      else operatorsHold rt val rest)"

fun passesCondition :: "runtime \<Rightarrow> (string \<times> (string \<times> jsval) list) list \<Rightarrow> jsval \<Rightarrow> bool" where
  "passesCondition rt [] recordDoc = True"
| "passesCondition rt ((path, cond) # rest) recordDoc =
     (if operatorsHold rt (resolvePath rt path recordDoc) cond
      then passesCondition rt rest recordDoc else False)"

text \<open>\<open>record.toObject()\<close>: the modelled paths of the document; \<open>fields\<close> stays a Map.\<close>

definition toObject :: "financeRecord \<Rightarrow> jsval" where
  "toObject r =
     JObject
       [(''_id'', JHost ''ObjectId''),
        (''orgId'', JHost ''ObjectId''),
        (''type'', JStr (r_type r)),
        (''categoryId'', (case r_categoryId r of None \<Rightarrow> JNull | Some c \<Rightarrow> JHost ''ObjectId'')),
        (''status'', JStr (r_status r)),
        (''fields'', JMap (r_fields r)),
        (''recurrence'', JObject [(''frequency'', JStr (r_frequency r))]),
        (''approvalsRequired'', JHost ''Array''),
        (''approvalsGiven'', JHost ''Array'')]"

text \<open>The two loops of updateRecord that fill \<open>record.approvalsRequired\<close>: an approver is
  pushed unless the array already holds it.\<close>

fun pushApprovers :: "objectId list \<Rightarrow> objectId list \<Rightarrow> objectId list" where
  "pushApprovers acc [] = acc"
| "pushApprovers acc (a # as) =
     pushApprovers (if a \<in> set acc then acc else acc @ [a]) as"

fun collectApprovers :: "runtime \<Rightarrow> jsval \<Rightarrow> objectId list \<Rightarrow> approvalRule list \<Rightarrow> objectId list" where
  "collectApprovers rt recordDoc acc [] = acc"
| "collectApprovers rt recordDoc acc (rule # rules) =
     collectApprovers rt recordDoc
       (if passesCondition rt (conditions rule) recordDoc
        then pushApprovers acc (requiredApprovers rule) else acc)
       rules"

section \<open>The controllers (controllers/financeController.js)\<close>

text \<open>
  A handler takes the store and the request and returns the response with the store it
  leaves behind. An identifier is a well-formed ObjectId string. In a request body an
  absent key is \<open>None\<close>; for the two identifiers, \<open>Some None\<close> is an explicit null. The
  empty string is falsy.
\<close>

record user =
  u_id :: objectId
  organizations :: "(objectId \<times> string) list"

record recordRequest =
  q_type :: "string option"
  q_categoryId :: "objectId option option"
  q_status :: "string option"
  q_fields :: "fieldMap option"
  q_frequency :: "string option"
  q_partnerId :: "objectId option option"

datatype body = Message string | RecordBody financeRecord

datatype response = Response nat body

text \<open>\<open>req.user.organizations.find(m => m.orgId.toString() === orgId)\<close>\<close>

definition membership :: "user \<Rightarrow> objectId \<Rightarrow> (objectId \<times> string) option" where
  "membership u orgId = find (\<lambda>m. fst m = orgId) (organizations u)"

definition isAdmin :: "user \<Rightarrow> objectId \<Rightarrow> bool" where
  "isAdmin u orgId = (case membership u orgId of None \<Rightarrow> False | Some m \<Rightarrow> snd m = ''admin'')"

definition notMember :: response where
  "notMember = Response 403 (Message ''Not a member of this organization.'')"

definition serverError :: response where
  "serverError = Response 500 (Message ''Server error'')"

text \<open>A truthy identifier of the request body.\<close>

fun truthyId :: "objectId option option \<Rightarrow> objectId option" where
  "truthyId (Some (Some c)) = (if c = [] then None else Some c)"
| "truthyId other = None"

subsection \<open>deleteFieldDefinition\<close>

fun deleteFirst :: "('a \<Rightarrow> bool) \<Rightarrow> 'a list \<Rightarrow> 'a list" where
  "deleteFirst P [] = []"
| "deleteFirst P (x # xs) = (if P x then xs else x # deleteFirst P xs)"

text \<open>\<open>FinanceRecord.countDocuments({ orgId, [`fields.${fieldId}`]: { $exists: true } })\<close>\<close>

definition usageCount :: "database \<Rightarrow> objectId \<Rightarrow> objectId \<Rightarrow> nat" where
  "usageCount db orgId fieldId =
     length (filter (\<lambda>r. r_orgId r = orgId \<and> mapHas (r_fields r) fieldId) (financeRecords db))"

definition deleteFieldDefinition :: "database \<Rightarrow> user \<Rightarrow> objectId \<Rightarrow> objectId \<Rightarrow> response \<times> database" where
  "deleteFieldDefinition db u orgId fieldId =
     (if \<not> isAdmin u orgId
      then (Response 403 (Message ''Only admins can delete field definitions.''), db)
      else
        (case find (\<lambda>fd. fd_id fd = fieldId) (fieldDefinitions db) of
           None \<Rightarrow> (Response 404 (Message ''Field definition not found.''), db)
         | Some fieldDef \<Rightarrow>
             if fd_orgId fieldDef \<noteq> orgId
             then (Response 404 (Message ''Field definition not found.''), db)
             else if usageCount db orgId fieldId > 0
             then (Response 400 (Message ''Cannot delete a field definition in use.''), db)
             else (Response 200 (Message ''Field definition deleted successfully.''),
                   db\<lparr>fieldDefinitions :=
                        deleteFirst (\<lambda>fd. fd_id fd = fieldId) (fieldDefinitions db)\<rparr>)))"

subsection \<open>createRecord\<close>

text \<open>The checks of the category and of the partner that answer 400.\<close>

definition invalidCategory :: "database \<Rightarrow> objectId \<Rightarrow> objectId option option \<Rightarrow> bool" where
  "invalidCategory db orgId categoryId =
     (case truthyId categoryId of
        None \<Rightarrow> False
      | Some c \<Rightarrow>
          (case find (\<lambda>x. cat_id x = c) (categories db) of
             None \<Rightarrow> True
           | Some cat \<Rightarrow> cat_orgId cat \<noteq> orgId))"

definition partnerProblem :: "database \<Rightarrow> objectId \<Rightarrow> string \<Rightarrow> objectId option option \<Rightarrow> string option" where
  "partnerProblem db orgId recType partnerId =
     (case truthyId partnerId of
        None \<Rightarrow> None
      | Some p \<Rightarrow>
          (case find (\<lambda>x. p_id x = p) (partners db) of
             None \<Rightarrow> Some ''Invalid partnerId.''
           | Some pa \<Rightarrow>
               if p_orgId pa \<noteq> orgId then Some ''Invalid partnerId.''
               else if p_type pa \<noteq> (if recType = ''expense'' then ''vendor'' else ''client'')
               then Some (''Partner type ('' @ p_type pa @ '') does not match record type (''
                          @ recType @ '').'')
               else None))"

text \<open>\<open>new FinanceRecord({...})\<close>; \<open>newId\<close> is the \<open>_id\<close> the driver gives the new
  document.\<close>

definition newRecord :: "objectId \<Rightarrow> objectId \<Rightarrow> string \<Rightarrow> recordRequest \<Rightarrow> financeRecord" where
  "newRecord newId orgId recType req =
     \<lparr>r_id = newId, r_orgId = orgId, r_type = recType,
      r_categoryId = truthyId (q_categoryId req),
      r_status = (case q_status req of
                    None \<Rightarrow> ''approved''
                  | Some s \<Rightarrow> if s = [] then ''approved'' else s),
      r_fields = (case q_fields req of None \<Rightarrow> [] | Some f \<Rightarrow> f),
      r_frequency = (case q_frequency req of None \<Rightarrow> ''none'' | Some f \<Rightarrow> f),
      approvalsRequired = [], approvalsGiven = []\<rparr>"

definition createRecord ::
  "runtime \<Rightarrow> database \<Rightarrow> user \<Rightarrow> objectId \<Rightarrow> objectId \<Rightarrow> recordRequest \<Rightarrow> response \<times> database" where
  "createRecord rt db u orgId newId req =
     (case membership u orgId of
        None \<Rightarrow> (notMember, db)
      | Some m \<Rightarrow>
     (case q_type req of
        None \<Rightarrow> (Response 400 (Message ''Invalid record type.''), db)
      | Some recType \<Rightarrow>
          if recType \<notin> set [''expense'', ''revenue'']
          then (Response 400 (Message ''Invalid record type.''), db)
          else if invalidCategory db orgId (q_categoryId req)
          then (Response 400 (Message ''Invalid categoryId.''), db)
          else
            (case partnerProblem db orgId recType (q_partnerId req) of
               Some msg \<Rightarrow> (Response 400 (Message msg), db)
             | None \<Rightarrow>
                 (case save rt db (newRecord newId orgId recType req) of
                    Inl e \<Rightarrow> (serverError, db)
                  | Inr (savedRecord, db') \<Rightarrow> (Response 201 (RecordBody savedRecord), db')))))"

subsection \<open>updateRecord\<close>

text \<open>The updates of type, category and partner, each of which may answer 400.\<close>

definition updateType :: "recordRequest \<Rightarrow> financeRecord \<Rightarrow> response + financeRecord" where
  "updateType req record =
     (case q_type req of
        None \<Rightarrow> Inr record
      | Some t \<Rightarrow>
          if t = [] then Inr record
          else if t \<notin> set [''expense'', ''revenue'']
          then Inl (Response 400 (Message ''Invalid record type.''))
          else Inr (record\<lparr>r_type := t\<rparr>))"

definition updateCategory :: "database \<Rightarrow> objectId \<Rightarrow> recordRequest \<Rightarrow> financeRecord \<Rightarrow> response + financeRecord" where
  "updateCategory db orgId req record =
     (case q_categoryId req of
        None \<Rightarrow> Inr record
      | Some given \<Rightarrow>
          (case truthyId (Some given) of
             None \<Rightarrow> Inr (record\<lparr>r_categoryId := None\<rparr>)
           | Some c \<Rightarrow>
               (case find (\<lambda>x. cat_id x = c) (categories db) of
                  None \<Rightarrow> Inl (Response 400 (Message ''Invalid categoryId.''))
                | Some cat \<Rightarrow>
                    if cat_orgId cat \<noteq> orgId
                    then Inl (Response 400 (Message ''Invalid categoryId.''))
                    else Inr (record\<lparr>r_categoryId := Some c\<rparr>))))"

definition updatePartner :: "database \<Rightarrow> objectId \<Rightarrow> recordRequest \<Rightarrow> financeRecord \<Rightarrow> response + financeRecord" where
  "updatePartner db orgId req record =
     (case truthyId (q_partnerId req) of
        None \<Rightarrow> Inr record
      | Some p \<Rightarrow>
          (case find (\<lambda>x. p_id x = p) (partners db) of
             None \<Rightarrow> Inl (Response 400 (Message ''Invalid partnerId.''))
           | Some pa \<Rightarrow>
               if p_orgId pa \<noteq> orgId then Inl (Response 400 (Message ''Invalid partnerId.''))
               else if p_type pa \<noteq> r_type record \<and> p_type pa \<noteq> ''both''
               then Inl (Response 400 (Message (''Partner type ('' @ p_type pa
                      @ '') does not match record type ('' @ r_type record @ '').'')))
               else Inr record))"

text \<open>\<open>statusChangedToPendingApproval\<close>, and the assignments of status, fields and
  recurrence.\<close>

definition statusChangedToPendingApproval :: "recordRequest \<Rightarrow> financeRecord \<Rightarrow> bool" where
  "statusChangedToPendingApproval req record =
     (case q_status req of
        None \<Rightarrow> False
      | Some s \<Rightarrow> s \<noteq> r_status record \<and> s = ''pending_approval'')"

definition assignBody :: "recordRequest \<Rightarrow> financeRecord \<Rightarrow> financeRecord" where
  "assignBody req record =
     (let r1 = (case q_status req of
                  None \<Rightarrow> record
                | Some s \<Rightarrow> if s \<noteq> r_status record then record\<lparr>r_status := s\<rparr> else record);
          r2 = (case q_fields req of None \<Rightarrow> r1 | Some f \<Rightarrow> r1\<lparr>r_fields := f\<rparr>)
      in (case q_frequency req of None \<Rightarrow> r2 | Some f \<Rightarrow> r2\<lparr>r_frequency := f\<rparr>))"

text \<open>The approval logic: \<open>FinanceApprovalRule.find({ orgId })\<close>, the two arrays reset,
  the rules evaluated against \<open>record.toObject()\<close>, and the automatic approval.\<close>

definition approvalLogic :: "runtime \<Rightarrow> database \<Rightarrow> objectId \<Rightarrow> financeRecord \<Rightarrow> financeRecord" where
  "approvalLogic rt db orgId record =
     (if r_status record = ''pending_approval'' then
        (let rules = filter (\<lambda>rule. rule_orgId rule = orgId) (approvalRules db);
             required = collectApprovers rt (toObject record) [] rules;
             r1 = record\<lparr>approvalsRequired := required, approvalsGiven := []\<rparr>
         in if length required = 0 then r1\<lparr>r_status := ''approved''\<rparr> else r1)
      else record)"

text \<open>Everything updateRecord does to the loaded document before the approval logic.\<close>

definition applyUpdates :: "database \<Rightarrow> objectId \<Rightarrow> recordRequest \<Rightarrow> financeRecord \<Rightarrow> response + financeRecord" where
  "applyUpdates db orgId req record =
     (case updateType req record of
        Inl resp \<Rightarrow> Inl resp
      | Inr r1 \<Rightarrow>
     (case updateCategory db orgId req r1 of
        Inl resp \<Rightarrow> Inl resp
      | Inr r2 \<Rightarrow>
     (case updatePartner db orgId req r2 of
        Inl resp \<Rightarrow> Inl resp
      | Inr r3 \<Rightarrow> Inr (assignBody req r3))))"

definition updateRecord ::
  "runtime \<Rightarrow> database \<Rightarrow> user \<Rightarrow> objectId \<Rightarrow> objectId \<Rightarrow> recordRequest \<Rightarrow> response \<times> database" where
  "updateRecord rt db u orgId recordId req =
     (case membership u orgId of
        None \<Rightarrow> (notMember, db)
      | Some m \<Rightarrow>
     (case find (\<lambda>r. r_id r = recordId) (financeRecords db) of
        None \<Rightarrow> (Response 404 (Message ''Record not found.''), db)
      | Some record \<Rightarrow>
          if r_orgId record \<noteq> orgId then (Response 404 (Message ''Record not found.''), db)
          else
     (case applyUpdates db orgId req record of
        Inl resp \<Rightarrow> (resp, db)
      | Inr r4 \<Rightarrow>
          (let r5 = (if statusChangedToPendingApproval req record
                     then approvalLogic rt db orgId r4 else r4)
           in case save rt db r5 of
                Inl e \<Rightarrow> (serverError, db)
              | Inr (updatedRecord, db') \<Rightarrow> (Response 200 (RecordBody updatedRecord), db')))))"

subsection \<open>deleteRecord\<close>

text \<open>\<open>findByIdAndDelete\<close> removes the document and returns it; the organization is
  compared afterwards.\<close>

definition deleteRecord :: "database \<Rightarrow> user \<Rightarrow> objectId \<Rightarrow> objectId \<Rightarrow> response \<times> database" where
  "deleteRecord db u orgId recordId =
     (case membership u orgId of
        None \<Rightarrow> (notMember, db)
      | Some m \<Rightarrow>
          (let record = find (\<lambda>r. r_id r = recordId) (financeRecords db);
               db' = db\<lparr>financeRecords := deleteFirst (\<lambda>r. r_id r = recordId) (financeRecords db)\<rparr>
           in case record of
                None \<Rightarrow> (Response 404 (Message ''Record not found or already deleted.''), db')
              | Some r \<Rightarrow>
                  if r_orgId r \<noteq> orgId
                  then (Response 404 (Message ''Record not found or already deleted.''), db')
                  else (Response 200 (Message ''Record deleted successfully.''), db')))"

subsection \<open>approveRecord\<close>

text \<open>What approveRecord does to the loaded document: the approver is pushed unless
  \<open>approvalsGiven\<close> already holds it, and the status becomes \<open>approved\<close> when every
  required approver is among the given ones.\<close>

definition addApproval :: "objectId \<Rightarrow> financeRecord \<Rightarrow> financeRecord" where
  "addApproval userId record =
     (let r1 = (if userId \<notin> set (approvalsGiven record)
                then record\<lparr>approvalsGiven := approvalsGiven record @ [userId]\<rparr>
                else record);
          allApproved = list_all (\<lambda>r. r \<in> set (approvalsGiven r1)) (approvalsRequired r1)
      in if allApproved then r1\<lparr>r_status := ''approved''\<rparr> else r1)"

definition approveRecord ::
  "runtime \<Rightarrow> database \<Rightarrow> user \<Rightarrow> objectId \<Rightarrow> objectId \<Rightarrow> response \<times> database" where
  "approveRecord rt db u orgId recordId =
     (case membership u orgId of
        None \<Rightarrow> (notMember, db)
      | Some m \<Rightarrow>
     (case find (\<lambda>r. r_id r = recordId) (financeRecords db) of
        None \<Rightarrow> (Response 404 (Message ''Record not found.''), db)
      | Some record \<Rightarrow>
          if r_orgId record \<noteq> orgId then (Response 404 (Message ''Record not found.''), db)
          else if r_status record \<noteq> ''pending_approval''
          then (Response 400 (Message ''Record is not pending approval.''), db)
          else if u_id u \<notin> set (approvalsRequired record)
          then (Response 403 (Message ''You are not required to approve this record.''), db)
          else
            (case save rt db (addApproval (u_id u) record) of
               Inl e \<Rightarrow> (serverError, db)
             | Inr (savedRecord, db') \<Rightarrow> (Response 200 (RecordBody savedRecord), db'))))"

section \<open>The specification's notion of a field in use\<close>

text \<open>The specification's words, to compare with \<open>usageCount\<close>: some persisted record
  of the organization has an entry in its fields mapping keyed by the name.\<close>

definition fieldInUse :: "database \<Rightarrow> objectId \<Rightarrow> string \<Rightarrow> bool" where
  "fieldInUse db orgId n =
     (\<exists>r \<in> set (financeRecords db). r_orgId r = orgId \<and> mapHas (r_fields r) n)"

section \<open>The substitution of identifiers, as a text\<close>

text \<open>
  What the replacement does to an expression when no callback throws, written directly:
  every run that starts with a letter or underscore becomes the text of the number it
  names in the lookup, or the text \<open>0\<close> when the lookup has no such name; every other run
  stays.
\<close>

definition isIdentifier :: "string \<Rightarrow> bool" where
  "isIdentifier t = (case t of [] \<Rightarrow> False | c # cs \<Rightarrow> isIdentStart c)"

definition substituteRun :: "runtime \<Rightarrow> (string \<rightharpoonup> jsval) \<Rightarrow> string \<Rightarrow> string" where
  "substituteRun rt ntv t =
     (if isIdentifier t
      then (case ntv t of Some (JNum n) \<Rightarrow> NumberToString rt n | other \<Rightarrow> ''0'')
      else t)"

definition substituteText :: "runtime \<Rightarrow> (string \<rightharpoonup> jsval) \<Rightarrow> string \<Rightarrow> string" where
  "substituteText rt ntv expr = concat (map (substituteRun rt ntv) (wordRuns [] expr))"

text \<open>An identifier that the callback does not refuse: it names a number, or it names
  nothing, not even an inherited property.\<close>

definition substitutable :: "(string \<rightharpoonup> jsval) \<Rightarrow> string \<Rightarrow> bool" where
  "substitutable ntv t =
     (case ntv t of Some v \<Rightarrow> typeofNumber v | None \<Rightarrow> t \<notin> set objectPrototypeNames)"

text \<open>\<open>a <= b\<close> on numbers: false as soon as one of them is NaN.\<close>

fun numLessEq :: "jsnum \<Rightarrow> jsnum \<Rightarrow> bool" where
  "numLessEq NaN y = False"
| "numLessEq x NaN = False"
| "numLessEq x y = (\<not> numLess y x)"

section \<open>The outcome of the Function call of a formula\<close>

text \<open>
  For a definition the loop evaluates (a formula with a non-empty expression whose
  replacement raises nothing), the outcome of \<open>Function(...)()\<close> on the substituted
  text; \<open>None\<close> for a definition the loop passes over or whose replacement throws.
\<close>

definition formulaOutcome :: "runtime \<Rightarrow> (string \<rightharpoonup> jsval) \<Rightarrow> fieldDef \<Rightarrow> (string + jsval) option" where
  "formulaOutcome rt ntv fd =
     (if fd_type fd = ''formula'' then
        (case fd_expression fd of
           None \<Rightarrow> None
         | Some expr \<Rightarrow>
             (if expr = [] then None
              else
                (case replaceIdentifiers (replaceCallback rt ntv (fd_name fd)) expr of
                   Inl e \<Rightarrow> None
                 | Inr safeExpr \<Rightarrow> Some (FunctionCall rt (functionSource safeExpr)))))
      else None)"

text \<open>
  The same outcome written from the substituted text: what the loop does when every
  replacement goes through. \<open>applyOutcomes\<close> runs over the definitions in order, stops
  with the evaluation error at the first call that throws, and stores every value
  returned under the name of its definition.
\<close>

definition substitutedOutcome :: "runtime \<Rightarrow> (string \<rightharpoonup> jsval) \<Rightarrow> fieldDef \<Rightarrow> (string + jsval) option" where
  "substitutedOutcome rt ntv fd =
     (if fd_type fd = ''formula'' then
        (case fd_expression fd of
           None \<Rightarrow> None
         | Some expr \<Rightarrow>
             (if expr = [] then None
              else Some (FunctionCall rt (functionSource (substituteText rt ntv expr)))))
      else None)"

fun applyOutcomes :: "runtime \<Rightarrow> (string \<rightharpoonup> jsval) \<Rightarrow> fieldDef list \<Rightarrow> fieldMap \<Rightarrow> saveError + fieldMap" where
  "applyOutcomes rt ntv [] flds = Inr flds"
| "applyOutcomes rt ntv (fd # fds) flds =
     (case substitutedOutcome rt ntv fd of
        None \<Rightarrow> applyOutcomes rt ntv fds flds
      | Some (Inl msg) \<Rightarrow> Inl (FormulaEvaluationError (fd_name fd) msg)
      | Some (Inr v) \<Rightarrow> applyOutcomes rt ntv fds (AList.update (fd_name fd) v flds))"

section \<open>Sample data\<close>

text \<open>
  A runtime tabulated at the inputs the examples below reach. Each entry is what
  ECMAScript prescribes: \<open>String(5)\<close> is \<open>5\<close>, and the bodies \<open>return (5 + 0)\<close>,
  \<open>return (5 < 10)\<close> and \<open>return (0/0)\<close> return 5, true and NaN. A read of a property
  that is absent is undefined. Outside the table the entries are placeholders that no
  example reads.
\<close>

definition sampleNumberToString :: "jsnum \<Rightarrow> string" where
  "sampleNumberToString n =
     (if n = Finite 5 then ''5'' else if n = Finite 0 then ''0''
      else if n = Finite 100 then ''100'' else ''not tabulated'')"

definition sampleFunctionCall :: "string \<Rightarrow> string + jsval" where
  "sampleFunctionCall src =
     (if src = functionSource ''5 + 0'' then Inr (JNum (Finite 5))
      else if src = functionSource ''5 < 10'' then Inr (JBool True)
      else if src = functionSource ''0/0'' then Inr (JNum NaN)
      else Inl ''not tabulated'')"

definition sampleRuntime :: runtime where
  "sampleRuntime =
     \<lparr>NumberToString = sampleNumberToString, FunctionCall = sampleFunctionCall,
      StringToNumber = (\<lambda>s. NaN), ToPrimitive = (\<lambda>v. JUndefined),
      GetOther = (\<lambda>v p. JUndefined)\<rparr>"

text \<open>One organization \<open>org1\<close> with a category, its field definitions, two approval
  rules and three stored records; a second organization \<open>org2\<close>.\<close>

definition numberDef :: "objectId \<Rightarrow> string \<Rightarrow> bool \<Rightarrow> fieldDef" where
  "numberDef i n final =
     \<lparr>fd_id = i, fd_orgId = ''org1'', fd_name = n, fd_type = ''number'',
      fd_expression = None, fd_applicableTo = [''expense'', ''revenue''],
      fd_isFinalAmount = final\<rparr>"

definition formulaDef :: "objectId \<Rightarrow> string \<Rightarrow> string \<Rightarrow> fieldDef" where
  "formulaDef i n expr =
     \<lparr>fd_id = i, fd_orgId = ''org1'', fd_name = n, fd_type = ''formula'',
      fd_expression = Some expr, fd_applicableTo = [''expense'', ''revenue''],
      fd_isFinalAmount = False\<rparr>"

definition sampleRecord :: "objectId \<Rightarrow> string \<Rightarrow> fieldMap \<Rightarrow> financeRecord" where
  "sampleRecord i st flds =
     \<lparr>r_id = i, r_orgId = ''org1'', r_type = ''expense'', r_categoryId = Some ''c1'',
      r_status = st, r_fields = flds, r_frequency = ''none'',
      approvalsRequired = [], approvalsGiven = []\<rparr>"

definition sampleDb :: database where
  "sampleDb =
     \<lparr>categories = [\<lparr>cat_id = ''c1'', cat_orgId = ''org1''\<rparr>],
      fieldDefinitions =
        [numberDef ''f1'' ''amount'' True,
         formulaDef ''f2'' ''total'' ''amount + typo'',
         formulaDef ''f3'' ''flag'' ''amount < 10'',
         numberDef ''f4'' ''net'' True,
         numberDef ''f5'' ''total_amount'' True,
         formulaDef ''f6'' ''amount_paid'' ''0/0''],
      financeRecords =
        [sampleRecord ''r1'' ''draft'' [(''amount'', JNum (Finite 5))],
         (sampleRecord ''r2'' ''pending_approval'' [(''amount'', JNum (Finite 5))])
           \<lparr>approvalsRequired := [''u1'', ''u2'']\<rparr>,
         (sampleRecord ''r3'' ''pending_approval'' [(''amount'', JNum (Finite 5))])
           \<lparr>approvalsRequired := [''u1'', ''u2''], approvalsGiven := [''u1'']\<rparr>],
      approvalRules =
        [\<lparr>rule_orgId = ''org1'',
          conditions = [(''fields.amount'', [(''$gt'', JNum (Finite 3))]),
                        (''type'', [(''$eq'', JStr ''expense'')])],
          requiredApprovers = [''u1'', ''u2'']\<rparr>,
         \<lparr>rule_orgId = ''org1'',
          conditions = [(''fields.missing'', [(''$lt'', JNum (Finite 3))])],
          requiredApprovers = [''u3'']\<rparr>],
      partners = []\<rparr>"

definition member1 :: "objectId \<Rightarrow> user" where
  "member1 i = \<lparr>u_id = i, organizations = [(''org1'', ''member'')]\<rparr>"

definition admin1 :: user where
  "admin1 = \<lparr>u_id = ''u0'', organizations = [(''org1'', ''admin'')]\<rparr>"

definition member2 :: user where
  "member2 = \<lparr>u_id = ''u9'', organizations = [(''org2'', ''member'')]\<rparr>"

definition emptyRequest :: recordRequest where
  "emptyRequest =
     \<lparr>q_type = None, q_categoryId = None, q_status = None, q_fields = None,
      q_frequency = None, q_partnerId = None\<rparr>"

text \<open>A creation request of member \<open>u1\<close>: an expense of category \<open>c1\<close> with
  \<open>amount = 5\<close>, and the given \<open>status\<close> key.\<close>

definition sampleRequest :: "string option \<Rightarrow> recordRequest" where
  "sampleRequest st =
     emptyRequest\<lparr>q_type := Some ''expense'', q_categoryId := Some (Some ''c1''),
       q_status := st, q_fields := Some [(''amount'', JNum (Finite 5))]\<rparr>"

section \<open>Facts about the store\<close>

lemmas sample_defs =
  sampleRuntime_def sampleNumberToString_def sampleFunctionCall_def functionSource_def
  numberDef_def formulaDef_def sampleRecord_def sampleDb_def member1_def admin1_def
  member2_def emptyRequest_def

lemma deleteFirst_length: "find P xs = Some x \<Longrightarrow> length (deleteFirst P xs) < length xs"
  by (induction xs) (auto split: if_splits)

lemma deleteFirst_distinct:
  "distinct (map f xs) \<Longrightarrow> find (\<lambda>x. f x = k) (deleteFirst (\<lambda>x. f x = k) xs) = None"
proof (induction xs)
  case Nil
  then show ?case by simp
next
  case (Cons x xs)
  show ?case
  proof (cases "f x = k")
    case True
    with Cons.prems have "k \<notin> f ` set xs" by auto
    then have "find (\<lambda>x. f x = k) xs = None" by (auto simp: find_None_iff)
    with True show ?thesis by simp
  next
    case False
    with Cons show ?thesis by simp
  qed
qed

lemma mapGet_update:
  "mapGet (AList.update k v al) k' = (if k' = k then v else mapGet al k')"
  by (simp add: mapGet_def update_conv')

section \<open>deleteRecord across organizations\<close>

text \<open>
  C10. When deleteRecord is called for an organization the caller belongs to, with the
  id of an existing record of another organization, the answer is the 404 not-found
  response and nevertheless the record has been removed from the store: the store after
  the call is the store without that document, it is smaller, and (identifiers being
  unique) the record can no longer be found.
\<close>

theorem deleteRecord_other_organization:
  assumes "membership u orgId = Some m"
      and "find (\<lambda>r. r_id r = recordId) (financeRecords db) = Some r"
      and "r_orgId r \<noteq> orgId"
  shows "deleteRecord db u orgId recordId =
           (Response 404 (Message ''Record not found or already deleted.''),
            db\<lparr>financeRecords := deleteFirst (\<lambda>r. r_id r = recordId) (financeRecords db)\<rparr>)
         \<and> length (financeRecords (snd (deleteRecord db u orgId recordId)))
             < length (financeRecords db)
         \<and> (distinct (map r_id (financeRecords db)) \<longrightarrow>
              find (\<lambda>r. r_id r = recordId)
                (financeRecords (snd (deleteRecord db u orgId recordId))) = None)"
proof -
  have eq: "deleteRecord db u orgId recordId =
           (Response 404 (Message ''Record not found or already deleted.''),
            db\<lparr>financeRecords := deleteFirst (\<lambda>r. r_id r = recordId) (financeRecords db)\<rparr>)"
    using assms by (simp add: deleteRecord_def)
  show ?thesis
    using assms(2) by (simp add: eq deleteFirst_length deleteFirst_distinct)
qed

theorem deleteRecord_other_organization_witness:
  "fst (deleteRecord sampleDb member2 ''org2'' ''r1'') =
     Response 404 (Message ''Record not found or already deleted.'')
   \<and> map r_id (financeRecords sampleDb) = [''r1'', ''r2'', ''r3'']
   \<and> map r_id (financeRecords (snd (deleteRecord sampleDb member2 ''org2'' ''r1'')))
       = [''r2'', ''r3'']
   \<and> find (\<lambda>r. r_id r = ''r1'')
       (financeRecords (snd (deleteRecord sampleDb member2 ''org2'' ''r1''))) = None"
proof -
  have m: "membership member2 ''org2'' = Some (''org2'', ''member'')"
    by (simp add: membership_def member2_def)
  have f: "find (\<lambda>r. r_id r = ''r1'') (financeRecords sampleDb)
             = Some (sampleRecord ''r1'' ''draft'' [(''amount'', JNum (Finite 5))])"
    by (simp add: sampleDb_def sampleRecord_def)
  have o: "r_orgId (sampleRecord ''r1'' ''draft'' [(''amount'', JNum (Finite 5))]) \<noteq> ''org2''"
    by (simp add: sampleRecord_def)
  have d: "distinct (map r_id (financeRecords sampleDb))"
    by (simp add: sampleDb_def sampleRecord_def)
  show ?thesis
    using deleteRecord_other_organization [OF m f o] d
    by (simp add: sampleDb_def sampleRecord_def)
qed

section \<open>Facts about the save path\<close>

lemma preSave_Inr:
  assumes "preSave rt db r = Inr r'"
  obtains fieldDefs flds where
    "schemaValidate r = Inr ()" and "validateReferences db r = Inr fieldDefs"
    and "(if length fieldDefs > 0 then evaluateFormulas rt (r_fields r) fieldDefs
          else Inr (r_fields r)) = Inr flds"
    and "checkAmounts fieldDefs flds = Inr ()" and "r' = r\<lparr>r_fields := flds\<rparr>"
proof -
  have sv: "schemaValidate r = Inr ()"
    using assms by (cases "schemaValidate r") (simp_all add: preSave_def)
  obtain fieldDefs where vr: "validateReferences db r = Inr fieldDefs"
    using assms sv by (cases "validateReferences db r") (simp_all add: preSave_def)
  let ?ev = "if length fieldDefs > 0 then evaluateFormulas rt (r_fields r) fieldDefs
             else Inr (r_fields r)"
  obtain flds where ev: "?ev = Inr flds"
    using assms sv vr by (cases ?ev) (simp_all add: preSave_def)
  have ca: "checkAmounts fieldDefs flds = Inr ()"
    using assms sv vr ev by (cases "checkAmounts fieldDefs flds") (simp_all add: preSave_def)
  have "r' = r\<lparr>r_fields := flds\<rparr>"
    using assms sv vr ev ca by (simp add: preSave_def)
  with sv vr ev ca that show thesis by blast
qed

lemma preSave_keeps:
  assumes "preSave rt db r = Inr r'"
  shows "r_id r' = r_id r" and "r_orgId r' = r_orgId r" and "r_status r' = r_status r"
    and "approvalsRequired r' = approvalsRequired r" and "approvalsGiven r' = approvalsGiven r"
    and "r_type r' = r_type r"
proof -
  from assms obtain flds where "r' = r\<lparr>r_fields := flds\<rparr>"
    by (rule preSave_Inr)
  then show "r_id r' = r_id r" and "r_orgId r' = r_orgId r" and "r_status r' = r_status r"
    and "approvalsRequired r' = approvalsRequired r" and "approvalsGiven r' = approvalsGiven r"
    and "r_type r' = r_type r"
    by simp_all
qed

lemma save_Inr:
  assumes "save rt db r = Inr (r', db')"
  shows "preSave rt db r = Inr r'"
    and "db' = db\<lparr>financeRecords := storeRecord r' (financeRecords db)\<rparr>"
  using assms unfolding save_def by (auto split: sum.splits)

lemma storeRecord_member: "r \<in> set (storeRecord r rs)"
  unfolding storeRecord_def by (auto simp: image_iff)

section \<open>createRecord: the initial status\<close>

lemma createRecord_201:
  assumes "createRecord rt db u orgId newId req = (Response 201 (RecordBody saved), db')"
  shows "\<exists>recType. save rt db (newRecord newId orgId recType req) = Inr (saved, db')"
  using assms unfolding createRecord_def notMember_def serverError_def
  by (auto split: option.splits if_splits sum.splits prod.splits)

lemma createRecord_creates:
  assumes "membership u orgId = Some m" and "q_type req = Some recType"
    and "recType \<in> set [''expense'', ''revenue'']"
    and "\<not> invalidCategory db orgId (q_categoryId req)"
    and "partnerProblem db orgId recType (q_partnerId req) = None"
    and "preSave rt db (newRecord newId orgId recType req) = Inr saved"
  shows "createRecord rt db u orgId newId req
           = (Response 201 (RecordBody saved),
              db\<lparr>financeRecords := storeRecord saved (financeRecords db)\<rparr>)"
  unfolding createRecord_def save_def using assms by simp

lemma sample_preSave_plain:
  "st \<in> set [''approved'', ''draft''] \<Longrightarrow>
   preSave sampleRuntime sampleDb (sampleRecord i st [(''amount'', JNum (Finite 5))])
     = Inr (sampleRecord i st [(''amount'', JNum (Finite 5))])"
  by (auto simp add: sample_defs preSave_def schemaValidate_def validateReferences_def
      typeAllowed_def evaluateFormulas_def evaluateOne_def nameToDefTruthy_def checkAmounts_def mapGet_def
      mapHas_def objectPrototypeNames_def)

lemma sample_newRecord:
  "newRecord ''r9'' ''org1'' ''expense'' (sampleRequest None)
     = sampleRecord ''r9'' ''approved'' [(''amount'', JNum (Finite 5))]"
  "newRecord ''r9'' ''org1'' ''expense'' (sampleRequest (Some ''draft''))
     = sampleRecord ''r9'' ''draft'' [(''amount'', JNum (Finite 5))]"
  "newRecord ''r9'' ''org1'' ''expense'' (sampleRequest (Some ''''))
     = sampleRecord ''r9'' ''approved'' [(''amount'', JNum (Finite 5))]"
  by (simp_all add: newRecord_def sampleRequest_def emptyRequest_def sampleRecord_def)

lemma sample_storeRecord:
  "storeRecord (sampleRecord ''r9'' s f) (financeRecords sampleDb)
     = financeRecords sampleDb @ [sampleRecord ''r9'' s f]"
  by (simp add: storeRecord_def sampleDb_def sampleRecord_def)

lemma sample_create_checks:
  "membership (member1 ''u1'') ''org1'' = Some (''org1'', ''member'')"
  "q_type (sampleRequest st) = Some ''expense''"
  "invalidCategory sampleDb ''org1'' (q_categoryId (sampleRequest st)) = False"
  "partnerProblem sampleDb ''org1'' ''expense'' (q_partnerId (sampleRequest st)) = None"
  by (simp_all add: membership_def member1_def invalidCategory_def partnerProblem_def
      sampleDb_def sampleRequest_def emptyRequest_def)

text \<open>
  C9, as claimed: the created record's initial status is the caller-supplied status when
  one is provided. createRecord computes \<open>status || 'approved'\<close>, and the empty string is
  falsy: a request whose body carries \<open>status: ''\<close> is answered 201 with a record whose
  status is \<open>approved\<close>, not the supplied one, and that record is in the store.
\<close>

theorem createRecord_empty_status_counterexample:
  "q_status (sampleRequest (Some '''')) = Some ''''
   \<and> createRecord sampleRuntime sampleDb (member1 ''u1'') ''org1'' ''r9'' (sampleRequest (Some ''''))
       = (Response 201
            (RecordBody (sampleRecord ''r9'' ''approved'' [(''amount'', JNum (Finite 5))])),
          sampleDb\<lparr>financeRecords := financeRecords sampleDb
             @ [sampleRecord ''r9'' ''approved'' [(''amount'', JNum (Finite 5))]]\<rparr>)
   \<and> r_status (sampleRecord ''r9'' ''approved'' [(''amount'', JNum (Finite 5))]) \<noteq> ''''"
proof -
  have s: "save sampleRuntime sampleDb
             (newRecord ''r9'' ''org1'' ''expense'' (sampleRequest (Some '''')))
      = Inr (sampleRecord ''r9'' ''approved'' [(''amount'', JNum (Finite 5))],
             sampleDb\<lparr>financeRecords := financeRecords sampleDb
                @ [sampleRecord ''r9'' ''approved'' [(''amount'', JNum (Finite 5))]]\<rparr>)"
    unfolding sample_newRecord save_def by (simp add: sample_preSave_plain sample_storeRecord)
  have c: "createRecord sampleRuntime sampleDb (member1 ''u1'') ''org1'' ''r9''
             (sampleRequest (Some ''''))
      = (Response 201
           (RecordBody (sampleRecord ''r9'' ''approved'' [(''amount'', JNum (Finite 5))])),
         sampleDb\<lparr>financeRecords := financeRecords sampleDb
            @ [sampleRecord ''r9'' ''approved'' [(''amount'', JNum (Finite 5))]]\<rparr>)"
    unfolding createRecord_def by (simp add: sample_create_checks s)
  have q: "q_status (sampleRequest (Some '''')) = Some ''''"
    by (simp add: sampleRequest_def emptyRequest_def)
  have r: "r_status (sampleRecord ''r9'' ''approved'' [(''amount'', JNum (Finite 5))]) \<noteq> ''''"
    by (simp add: sampleRecord_def)
  from q c r show ?thesis by (intro conjI)
qed

text \<open>
  C9, amended. The initial status of a record createRecord creates is the status of the
  request body when that is a non-empty string, and \<open>approved\<close> when the body carries no
  status or carries the empty string; so draft and pending_approval are entered only on
  request.
  \<^item> Whenever createRecord answers 201, the record of the answer has that status and is
    in the store the handler leaves behind.
  \<^item> createRecord does answer 201, with the record the pre-save hook lets through, stored,
    whenever the caller is a member of the organization, the type is expense or revenue,
    the category and the partner pass their checks and the pre-save hook accepts the new
    record; the status of that record is the one above.
\<close>

theorem createRecord_initial_status:
  "(createRecord rt db u orgId newId req = (Response 201 (RecordBody saved), db') \<longrightarrow>
      r_status saved
        = (case q_status req of
             None \<Rightarrow> ''approved''
           | Some s \<Rightarrow> if s = [] then ''approved'' else s)
      \<and> saved \<in> set (financeRecords db'))
   \<and> (membership u orgId \<noteq> None \<and> q_type req = Some recType
        \<and> recType \<in> set [''expense'', ''revenue'']
        \<and> \<not> invalidCategory db orgId (q_categoryId req)
        \<and> partnerProblem db orgId recType (q_partnerId req) = None
        \<and> preSave rt db (newRecord newId orgId recType req) = Inr accepted \<longrightarrow>
      createRecord rt db u orgId newId req
        = (Response 201 (RecordBody accepted),
           db\<lparr>financeRecords := storeRecord accepted (financeRecords db)\<rparr>)
      \<and> r_status accepted
          = (case q_status req of
               None \<Rightarrow> ''approved''
             | Some s \<Rightarrow> if s = [] then ''approved'' else s))"
proof (intro conjI impI)
  assume h: "createRecord rt db u orgId newId req = (Response 201 (RecordBody saved), db')"
  from createRecord_201 [OF h] obtain t where
    s: "save rt db (newRecord newId orgId t req) = Inr (saved, db')" by blast
  have "r_status saved = r_status (newRecord newId orgId t req)"
    using preSave_keeps(3) [OF save_Inr(1) [OF s]] .
  then show "r_status saved
        = (case q_status req of
             None \<Rightarrow> ''approved''
           | Some s \<Rightarrow> if s = [] then ''approved'' else s)"
    by (simp add: newRecord_def)
  show "saved \<in> set (financeRecords db')"
    using save_Inr(2) [OF s] by (simp add: storeRecord_member)
next
  assume h: "membership u orgId \<noteq> None \<and> q_type req = Some recType
        \<and> recType \<in> set [''expense'', ''revenue'']
        \<and> \<not> invalidCategory db orgId (q_categoryId req)
        \<and> partnerProblem db orgId recType (q_partnerId req) = None
        \<and> preSave rt db (newRecord newId orgId recType req) = Inr accepted"
  then obtain m where m: "membership u orgId = Some m" by blast
  from h have p: "preSave rt db (newRecord newId orgId recType req) = Inr accepted" by simp
  from h have q: "q_type req = Some recType" by simp
  from h have t: "recType \<in> set [''expense'', ''revenue'']" by simp
  from h have ic: "\<not> invalidCategory db orgId (q_categoryId req)" by simp
  from h have pp: "partnerProblem db orgId recType (q_partnerId req) = None" by simp
  show "createRecord rt db u orgId newId req
        = (Response 201 (RecordBody accepted),
           db\<lparr>financeRecords := storeRecord accepted (financeRecords db)\<rparr>)"
    using createRecord_creates [OF m q t ic pp p] .
  have "r_status accepted = r_status (newRecord newId orgId recType req)"
    using preSave_keeps(3) [OF p] .
  then show "r_status accepted
          = (case q_status req of
               None \<Rightarrow> ''approved''
             | Some s \<Rightarrow> if s = [] then ''approved'' else s)"
    by (simp add: newRecord_def)
qed

theorem createRecord_initial_status_witness:
  "createRecord sampleRuntime sampleDb (member1 ''u1'') ''org1'' ''r9'' (sampleRequest None)
     = (Response 201
          (RecordBody (sampleRecord ''r9'' ''approved'' [(''amount'', JNum (Finite 5))])),
        sampleDb\<lparr>financeRecords := financeRecords sampleDb
           @ [sampleRecord ''r9'' ''approved'' [(''amount'', JNum (Finite 5))]]\<rparr>)
   \<and> createRecord sampleRuntime sampleDb (member1 ''u1'') ''org1'' ''r9''
       (sampleRequest (Some ''draft''))
     = (Response 201
          (RecordBody (sampleRecord ''r9'' ''draft'' [(''amount'', JNum (Finite 5))])),
        sampleDb\<lparr>financeRecords := financeRecords sampleDb
           @ [sampleRecord ''r9'' ''draft'' [(''amount'', JNum (Finite 5))]]\<rparr>)
   \<and> r_status (sampleRecord ''r9'' ''approved'' [(''amount'', JNum (Finite 5))]) = ''approved''
   \<and> r_status (sampleRecord ''r9'' ''draft'' [(''amount'', JNum (Finite 5))]) = ''draft''
   \<and> sampleRecord ''r9'' ''draft'' [(''amount'', JNum (Finite 5))]
       \<in> set (financeRecords sampleDb
                @ [sampleRecord ''r9'' ''draft'' [(''amount'', JNum (Finite 5))]])"
proof -
  let ?approved = "sampleRecord ''r9'' ''approved'' [(''amount'', JNum (Finite 5))]"
  let ?draft = "sampleRecord ''r9'' ''draft'' [(''amount'', JNum (Finite 5))]"
  have p1: "preSave sampleRuntime sampleDb
              (newRecord ''r9'' ''org1'' ''expense'' (sampleRequest None)) = Inr ?approved"
    unfolding sample_newRecord by (simp add: sample_preSave_plain)
  have p2: "preSave sampleRuntime sampleDb
              (newRecord ''r9'' ''org1'' ''expense'' (sampleRequest (Some ''draft''))) = Inr ?draft"
    unfolding sample_newRecord by (simp add: sample_preSave_plain)
  have h1: "membership (member1 ''u1'') ''org1'' \<noteq> None
        \<and> q_type (sampleRequest None) = Some ''expense''
        \<and> ''expense'' \<in> set [''expense'', ''revenue'']
        \<and> \<not> invalidCategory sampleDb ''org1'' (q_categoryId (sampleRequest None))
        \<and> partnerProblem sampleDb ''org1'' ''expense'' (q_partnerId (sampleRequest None)) = None
        \<and> preSave sampleRuntime sampleDb
             (newRecord ''r9'' ''org1'' ''expense'' (sampleRequest None)) = Inr ?approved"
    by (simp add: sample_create_checks p1)
  have h2: "membership (member1 ''u1'') ''org1'' \<noteq> None
        \<and> q_type (sampleRequest (Some ''draft'')) = Some ''expense''
        \<and> ''expense'' \<in> set [''expense'', ''revenue'']
        \<and> \<not> invalidCategory sampleDb ''org1'' (q_categoryId (sampleRequest (Some ''draft'')))
        \<and> partnerProblem sampleDb ''org1'' ''expense''
             (q_partnerId (sampleRequest (Some ''draft''))) = None
        \<and> preSave sampleRuntime sampleDb
             (newRecord ''r9'' ''org1'' ''expense'' (sampleRequest (Some ''draft''))) = Inr ?draft"
    by (simp add: sample_create_checks p2)
  have a: "createRecord sampleRuntime sampleDb (member1 ''u1'') ''org1'' ''r9'' (sampleRequest None)
             = (Response 201 (RecordBody ?approved),
                sampleDb\<lparr>financeRecords := storeRecord ?approved (financeRecords sampleDb)\<rparr>)
           \<and> r_status ?approved
               = (case q_status (sampleRequest None) of
                    None \<Rightarrow> ''approved''
                  | Some s \<Rightarrow> if s = [] then ''approved'' else s)"
    using createRecord_initial_status
      [of sampleRuntime sampleDb "member1 ''u1''" "''org1''" "''r9''" "sampleRequest None"
          ?approved sampleDb "''expense''" ?approved, THEN conjunct2, THEN mp, OF h1] .
  have b: "createRecord sampleRuntime sampleDb (member1 ''u1'') ''org1'' ''r9''
             (sampleRequest (Some ''draft''))
             = (Response 201 (RecordBody ?draft),
                sampleDb\<lparr>financeRecords := storeRecord ?draft (financeRecords sampleDb)\<rparr>)
           \<and> r_status ?draft
               = (case q_status (sampleRequest (Some ''draft'')) of
                    None \<Rightarrow> ''approved''
                  | Some s \<Rightarrow> if s = [] then ''approved'' else s)"
    using createRecord_initial_status
      [of sampleRuntime sampleDb "member1 ''u1''" "''org1''" "''r9''"
          "sampleRequest (Some ''draft'')" ?draft sampleDb "''expense''" ?draft,
       THEN conjunct2, THEN mp, OF h2] .
  have b1: "createRecord sampleRuntime sampleDb (member1 ''u1'') ''org1'' ''r9''
             (sampleRequest (Some ''draft''))
             = (Response 201 (RecordBody ?draft),
                sampleDb\<lparr>financeRecords := financeRecords sampleDb @ [?draft]\<rparr>)"
    using b [THEN conjunct1] unfolding sample_storeRecord .
  have c: "r_status ?draft
             = (case q_status (sampleRequest (Some ''draft'')) of
                    None \<Rightarrow> ''approved''
                  | Some s \<Rightarrow> if s = [] then ''approved'' else s)
           \<and> ?draft \<in> set (financeRecords sampleDb @ [?draft])"
    using createRecord_initial_status
      [of sampleRuntime sampleDb "member1 ''u1''" "''org1''" "''r9''"
          "sampleRequest (Some ''draft'')" ?draft
          "sampleDb\<lparr>financeRecords := financeRecords sampleDb @ [?draft]\<rparr>"
          "''expense''" ?draft,
       THEN conjunct1, THEN mp, OF b1] by simp
  have q: "q_status (sampleRequest None) = None"
    "q_status (sampleRequest (Some ''draft'')) = Some ''draft''"
    by (simp_all add: sampleRequest_def emptyRequest_def)
  have a1: "createRecord sampleRuntime sampleDb (member1 ''u1'') ''org1'' ''r9'' (sampleRequest None)
             = (Response 201 (RecordBody ?approved),
                sampleDb\<lparr>financeRecords := financeRecords sampleDb @ [?approved]\<rparr>)"
    using a [THEN conjunct1] unfolding sample_storeRecord .
  have a2: "r_status ?approved = ''approved''"
    using a [THEN conjunct2] unfolding q by simp
  have c1: "r_status ?draft = ''draft''"
    using c [THEN conjunct1] unfolding q by simp
  have c2: "?draft \<in> set (financeRecords sampleDb @ [?draft])"
    using c [THEN conjunct2] .
  from a1 b1 a2 c1 c2 show ?thesis by (intro conjI)
qed

section \<open>deleteFieldDefinition: the usage check\<close>

text \<open>
  C7. The claim: deletion fails exactly when some persisted record of the organization
  has a fields entry keyed by the definition's name. The code counts the records that
  have a fields entry keyed by the definition's \<open>_id\<close>, while validateReferences keys
  the fields by name. At the sample store the definition \<open>f1\<close>, named \<open>amount\<close>, is in
  use by name, and its deletion by an administrator answers 200 and removes it.
\<close>

theorem deleteFieldDefinition_checks_id_not_name:
  "fieldInUse sampleDb ''org1'' ''amount''
   \<and> find (\<lambda>fd. fd_id fd = ''f1'') (fieldDefinitions sampleDb)
       = Some (numberDef ''f1'' ''amount'' True)
   \<and> fst (deleteFieldDefinition sampleDb admin1 ''org1'' ''f1'')
       = Response 200 (Message ''Field definition deleted successfully.'')
   \<and> find (\<lambda>fd. fd_id fd = ''f1'')
       (fieldDefinitions (snd (deleteFieldDefinition sampleDb admin1 ''org1'' ''f1''))) = None"
  by (simp add: fieldInUse_def deleteFieldDefinition_def isAdmin_def membership_def usageCount_def
      mapHas_def sample_defs)

section \<open>approveRecord: the aggregation of approvals\<close>

lemma storeRecord_same_id:
  "x \<in> set (storeRecord s rs) \<Longrightarrow> r_id x = r_id s \<Longrightarrow> x = s"
  unfolding storeRecord_def by (auto simp: image_iff split: if_splits)

lemma storeRecord_find:
  "find (\<lambda>r. r_id r = r_id s) (storeRecord s rs) = Some s"
proof -
  have "r_id s \<in> set (map r_id rs) \<Longrightarrow>
        find (\<lambda>r. r_id r = r_id s) (map (\<lambda>x. if r_id x = r_id s then s else x) rs) = Some s"
    by (induction rs) auto
  moreover have "r_id s \<notin> set (map r_id rs) \<Longrightarrow> find (\<lambda>r. r_id r = r_id s) (rs @ [s]) = Some s"
    by (induction rs) auto
  ultimately show ?thesis unfolding storeRecord_def by simp
qed

lemma find_id: "find (\<lambda>r. r_id r = i) rs = Some x \<Longrightarrow> r_id x = i"
  by (auto simp: find_Some_iff)

lemma addApproval_given:
  "approvalsGiven (addApproval a r) =
     (if a \<in> set (approvalsGiven r) then approvalsGiven r else approvalsGiven r @ [a])"
  by (simp add: addApproval_def Let_def)

lemma addApproval_required: "approvalsRequired (addApproval a r) = approvalsRequired r"
  by (simp add: addApproval_def Let_def)

lemma addApproval_id: "r_id (addApproval a r) = r_id r"
  by (simp add: addApproval_def Let_def)

lemma addApproval_status:
  "r_status (addApproval a r) =
     (if set (approvalsRequired r) \<subseteq> set (approvalsGiven (addApproval a r))
      then ''approved'' else r_status r)"
  by (auto simp add: addApproval_def Let_def list_all_iff)

lemma approveRecord_reaches_save:
  assumes "membership u orgId = Some m"
      and "find (\<lambda>r. r_id r = recordId) (financeRecords db) = Some rec0"
      and "r_orgId rec0 = orgId" and "r_status rec0 = ''pending_approval''"
      and "u_id u \<in> set (approvalsRequired rec0)"
  shows "approveRecord rt db u orgId recordId =
           (case save rt db (addApproval (u_id u) rec0) of
              Inl e \<Rightarrow> (serverError, db)
            | Inr (savedRecord, db') \<Rightarrow> (Response 200 (RecordBody savedRecord), db'))"
  using assms by (simp add: approveRecord_def)

lemma approveRecord_refused:
  assumes "find (\<lambda>r. r_id r = recordId) (financeRecords db) = Some rec0"
      and "membership u orgId = None \<or> r_orgId rec0 \<noteq> orgId
           \<or> r_status rec0 \<noteq> ''pending_approval'' \<or> u_id u \<notin> set (approvalsRequired rec0)"
  shows "snd (approveRecord rt db u orgId recordId) = db"
    and "fst (approveRecord rt db u orgId recordId) \<in>
           {notMember, Response 404 (Message ''Record not found.''),
            Response 400 (Message ''Record is not pending approval.''),
            Response 403 (Message ''You are not required to approve this record.'')}"
  using assms by (auto simp add: approveRecord_def split: option.splits)

lemma approveRecord_unauthorized:
  assumes "find (\<lambda>r. r_id r = recordId) (financeRecords db) = Some rec0"
      and "membership u orgId = Some m" and "r_orgId rec0 = orgId"
      and "r_status rec0 = ''pending_approval''" and "u_id u \<notin> set (approvalsRequired rec0)"
  shows "approveRecord rt db u orgId recordId =
           (Response 403 (Message ''You are not required to approve this record.''), db)"
  using assms by (simp add: approveRecord_def)

text \<open>A successful approval, in full.\<close>

lemma approveRecord_200:
  assumes f: "find (\<lambda>r. r_id r = recordId) (financeRecords db) = Some rec0"
      and a: "approveRecord rt db u orgId recordId = (Response 200 rbody, db')"
  obtains saved where "rbody = RecordBody saved"
    and "r_status rec0 = ''pending_approval''" and "u_id u \<in> set (approvalsRequired rec0)"
    and "membership u orgId \<noteq> None" and "r_orgId rec0 = orgId"
    and "save rt db (addApproval (u_id u) rec0) = Inr (saved, db')"
proof -
  have ok: "\<not> (membership u orgId = None \<or> r_orgId rec0 \<noteq> orgId
           \<or> r_status rec0 \<noteq> ''pending_approval'' \<or> u_id u \<notin> set (approvalsRequired rec0))"
  proof
    assume r: "membership u orgId = None \<or> r_orgId rec0 \<noteq> orgId
           \<or> r_status rec0 \<noteq> ''pending_approval'' \<or> u_id u \<notin> set (approvalsRequired rec0)"
    from approveRecord_refused(2) [OF f r, of rt] a show False
      by (simp add: notMember_def)
  qed
  then obtain m where m: "membership u orgId = Some m" by auto
  from ok have o: "r_orgId rec0 = orgId" "r_status rec0 = ''pending_approval''"
    "u_id u \<in> set (approvalsRequired rec0)" by auto
  from approveRecord_reaches_save [OF m f o, of rt] a
  obtain saved where "save rt db (addApproval (u_id u) rec0) = Inr (saved, db')"
    "rbody = RecordBody saved"
    by (cases "save rt db (addApproval (u_id u) rec0)") (auto simp: serverError_def)
  with that m o show thesis by simp
qed

lemma approveRecord_not_200:
  assumes "approveRecord rt db u orgId recordId = (Response code rbody, db')"
      and "code \<noteq> 200"
  shows "db' = db"
  using assms unfolding approveRecord_def notMember_def serverError_def
  by (auto split: option.splits if_splits sum.splits prod.splits)

lemma save_result:
  assumes "save rt db r = Inr (saved, db')"
  shows "r_id saved = r_id r" and "r_status saved = r_status r"
    and "approvalsRequired saved = approvalsRequired r"
    and "approvalsGiven saved = approvalsGiven r"
    and "financeRecords db' = storeRecord saved (financeRecords db)"
    and "saved \<in> set (financeRecords db')"
  using preSave_keeps [OF save_Inr(1) [OF assms]] save_Inr(2) [OF assms]
  by (simp_all add: storeRecord_member)

lemma validateReferences_other_records:
  "validateReferences (db\<lparr>financeRecords := rs\<rparr>) r = validateReferences db r"
proof -
  have c: "categories (db\<lparr>financeRecords := rs\<rparr>) = categories db"
    and d: "fieldDefinitions (db\<lparr>financeRecords := rs\<rparr>) = fieldDefinitions db"
    by simp_all
  show ?thesis unfolding validateReferences_def c d ..
qed

lemma preSave_other_records:
  "preSave rt (db\<lparr>financeRecords := rs\<rparr>) r = preSave rt db r"
  unfolding preSave_def validateReferences_other_records ..

lemma sample_preSave_pending:
  "preSave sampleRuntime sampleDb
     ((sampleRecord i st [(''amount'', JNum (Finite 5))])\<lparr>approvalsRequired := rq, approvalsGiven := gv\<rparr>)
     = (if st \<in> set [''draft'', ''pending_approval'', ''approved'', ''paid'', ''completed'']
        then Inr ((sampleRecord i st [(''amount'', JNum (Finite 5))])\<lparr>approvalsRequired := rq, approvalsGiven := gv\<rparr>)
        else Inl (SchemaValidationFailed ''status''))"
  by (simp add: sample_defs preSave_def schemaValidate_def validateReferences_def
      typeAllowed_def evaluateFormulas_def evaluateOne_def nameToDefTruthy_def checkAmounts_def mapGet_def
      mapHas_def objectPrototypeNames_def)

text \<open>
  C3. For a stored record and any outcome of approveRecord:
  \<^item> the approval succeeds (200) only when the record is \<open>pending_approval\<close> (and the
    approver is required);
  \<^item> for a member, on a pending record of the organization, an approver who is not in
    \<open>approvalsRequired\<close> is refused with the authorization error (403);
  \<^item> any failure leaves the store unchanged;
  \<^item> on success \<open>approvalsRequired\<close> is unchanged and \<open>approvalsGiven\<close> is the former
    array with the approver appended unless it was there already; an array without
    duplicates stays so; approving once more with the same identity, whatever the
    outcome, leaves \<open>approvalsGiven\<close> of the stored record as it is;
  \<^item> on success the status is \<open>approved\<close> exactly when the set of required approvers is
    contained in the set of given ones (a containment of sets: the order of arrival
    plays no part), and \<open>pending_approval\<close> otherwise.
\<close>

theorem approveRecord_aggregation:
  assumes f: "find (\<lambda>r. r_id r = recordId) (financeRecords db) = Some rec0"
      and a: "approveRecord rt db u orgId recordId = (Response code rbody, db')"
  shows "(code = 200 \<longrightarrow> r_status rec0 = ''pending_approval'' \<and> u_id u \<in> set (approvalsRequired rec0))
       \<and> (membership u orgId \<noteq> None \<and> r_orgId rec0 = orgId \<and> r_status rec0 = ''pending_approval''
            \<and> u_id u \<notin> set (approvalsRequired rec0) \<longrightarrow> code = 403)
       \<and> (code \<noteq> 200 \<longrightarrow> db' = db)
       \<and> (code = 200 \<longrightarrow>
            (\<exists>saved. rbody = RecordBody saved \<and> saved \<in> set (financeRecords db')
               \<and> approvalsRequired saved = approvalsRequired rec0
               \<and> approvalsGiven saved =
                   (if u_id u \<in> set (approvalsGiven rec0) then approvalsGiven rec0
                    else approvalsGiven rec0 @ [u_id u])
               \<and> (distinct (approvalsGiven rec0) \<longrightarrow> distinct (approvalsGiven saved))
               \<and> (r_status saved = ''approved'' \<longleftrightarrow>
                    set (approvalsRequired rec0) \<subseteq> set (approvalsGiven saved))
               \<and> (r_status saved \<noteq> ''approved'' \<longrightarrow> r_status saved = ''pending_approval'')
               \<and> (\<forall>code2 body2 db2.
                     approveRecord rt db' u orgId recordId = (Response code2 body2, db2) \<longrightarrow>
                     (\<forall>r \<in> set (financeRecords db2).
                        r_id r = recordId \<longrightarrow> approvalsGiven r = approvalsGiven saved))))"
proof (cases "code = 200")
  case False
  have "db' = db" using approveRecord_not_200 [OF a False] .
  moreover have "membership u orgId \<noteq> None \<and> r_orgId rec0 = orgId
      \<and> r_status rec0 = ''pending_approval'' \<and> u_id u \<notin> set (approvalsRequired rec0)
      \<longrightarrow> code = 403"
  proof
    assume h: "membership u orgId \<noteq> None \<and> r_orgId rec0 = orgId
      \<and> r_status rec0 = ''pending_approval'' \<and> u_id u \<notin> set (approvalsRequired rec0)"
    then obtain m where "membership u orgId = Some m" by auto
    from approveRecord_unauthorized [OF f this, of rt] h a show "code = 403" by simp
  qed
  ultimately show ?thesis using False by simp
next
  case True
  with a have a2: "approveRecord rt db u orgId recordId = (Response 200 rbody, db')" by simp
  from approveRecord_200 [OF f a2] obtain saved where
    b: "rbody = RecordBody saved" and p: "r_status rec0 = ''pending_approval''"
    and q: "u_id u \<in> set (approvalsRequired rec0)"
    and s: "save rt db (addApproval (u_id u) rec0) = Inr (saved, db')" by blast
  note sr = save_result [OF s]
  have idr: "r_id rec0 = recordId" using find_id [OF f] .
  have ids: "r_id saved = recordId" using sr(1) idr by (simp add: addApproval_id)
  have giv: "approvalsGiven saved =
      (if u_id u \<in> set (approvalsGiven rec0) then approvalsGiven rec0
       else approvalsGiven rec0 @ [u_id u])"
    using sr(4) by (simp add: addApproval_given)
  have req: "approvalsRequired saved = approvalsRequired rec0"
    using sr(3) by (simp add: addApproval_required)
  have sta: "r_status saved =
      (if set (approvalsRequired rec0) \<subseteq> set (approvalsGiven saved)
       then ''approved'' else ''pending_approval'')"
    using sr(2) sr(4) addApproval_status [of "u_id u" rec0] p by simp
  have ingiven: "u_id u \<in> set (approvalsGiven saved)" using giv by simp
  have fs: "find (\<lambda>r. r_id r = recordId) (financeRecords db') = Some saved"
    using storeRecord_find [of saved "financeRecords db"] sr(5) ids by simp
  have twice: "\<forall>r \<in> set (financeRecords db2). r_id r = recordId \<longrightarrow> approvalsGiven r = approvalsGiven saved"
    if a3: "approveRecord rt db' u orgId recordId = (Response code2 body2, db2)"
    for code2 body2 db2
  proof (cases "code2 = 200")
    case False
    have "db2 = db'" using approveRecord_not_200 [OF a3 False] .
    then show ?thesis using storeRecord_same_id [of _ saved "financeRecords db"] sr(5) ids by auto
  next
    case True
    with a3 have a4: "approveRecord rt db' u orgId recordId = (Response 200 body2, db2)" by simp
    from approveRecord_200 [OF fs a4] obtain saved2 where
      s2: "save rt db' (addApproval (u_id u) saved) = Inr (saved2, db2)" by blast
    note sr2 = save_result [OF s2]
    have g2: "approvalsGiven saved2 = approvalsGiven saved"
      using sr2(4) ingiven by (simp add: addApproval_given)
    have "r_id saved2 = recordId" using sr2(1) ids by (simp add: addApproval_id)
    then show ?thesis using storeRecord_same_id [of _ saved2 "financeRecords db'"] sr2(5) g2 by auto
  qed
  have dis: "distinct (approvalsGiven rec0) \<longrightarrow> distinct (approvalsGiven saved)"
    using giv by simp
  have "rbody = RecordBody saved \<and> saved \<in> set (financeRecords db')
               \<and> approvalsRequired saved = approvalsRequired rec0
               \<and> approvalsGiven saved =
                   (if u_id u \<in> set (approvalsGiven rec0) then approvalsGiven rec0
                    else approvalsGiven rec0 @ [u_id u])
               \<and> (distinct (approvalsGiven rec0) \<longrightarrow> distinct (approvalsGiven saved))
               \<and> (r_status saved = ''approved'' \<longleftrightarrow>
                    set (approvalsRequired rec0) \<subseteq> set (approvalsGiven saved))
               \<and> (r_status saved \<noteq> ''approved'' \<longrightarrow> r_status saved = ''pending_approval'')
               \<and> (\<forall>code2 body2 db2.
                     approveRecord rt db' u orgId recordId = (Response code2 body2, db2) \<longrightarrow>
                     (\<forall>r \<in> set (financeRecords db2).
                        r_id r = recordId \<longrightarrow> approvalsGiven r = approvalsGiven saved))"
    using b sr(6) req giv dis sta twice by simp
  then show ?thesis using True p q by blast
qed

theorem approveRecord_aggregation_witness:
  "fst (approveRecord sampleRuntime sampleDb (member1 ''u2'') ''org1'' ''r3'')
     = Response 200 (RecordBody
         ((sampleRecord ''r3'' ''approved'' [(''amount'', JNum (Finite 5))])
            \<lparr>approvalsRequired := [''u1'', ''u2''], approvalsGiven := [''u1'', ''u2'']\<rparr>))
   \<and> fst (approveRecord sampleRuntime sampleDb (member1 ''u1'') ''org1'' ''r2'')
     = Response 200 (RecordBody
         ((sampleRecord ''r2'' ''pending_approval'' [(''amount'', JNum (Finite 5))])
            \<lparr>approvalsRequired := [''u1'', ''u2''], approvalsGiven := [''u1'']\<rparr>))
   \<and> fst (approveRecord sampleRuntime
            (snd (approveRecord sampleRuntime sampleDb (member1 ''u1'') ''org1'' ''r2''))
            (member1 ''u1'') ''org1'' ''r2'')
     = Response 200 (RecordBody
         ((sampleRecord ''r2'' ''pending_approval'' [(''amount'', JNum (Finite 5))])
            \<lparr>approvalsRequired := [''u1'', ''u2''], approvalsGiven := [''u1'']\<rparr>))
   \<and> approveRecord sampleRuntime sampleDb (member1 ''u3'') ''org1'' ''r2''
     = (Response 403 (Message ''You are not required to approve this record.''), sampleDb)"
proof -
  let ?r2 = "(sampleRecord ''r2'' ''pending_approval'' [(''amount'', JNum (Finite 5))])
               \<lparr>approvalsRequired := [''u1'', ''u2'']\<rparr>"
  let ?r3 = "(sampleRecord ''r3'' ''pending_approval'' [(''amount'', JNum (Finite 5))])
               \<lparr>approvalsRequired := [''u1'', ''u2''], approvalsGiven := [''u1'']\<rparr>"
  let ?s3 = "(sampleRecord ''r3'' ''approved'' [(''amount'', JNum (Finite 5))])
               \<lparr>approvalsRequired := [''u1'', ''u2''], approvalsGiven := [''u1'', ''u2'']\<rparr>"
  let ?s2 = "(sampleRecord ''r2'' ''pending_approval'' [(''amount'', JNum (Finite 5))])
               \<lparr>approvalsRequired := [''u1'', ''u2''], approvalsGiven := [''u1'']\<rparr>"
  let ?db2 = "sampleDb\<lparr>financeRecords := storeRecord ?s2 (financeRecords sampleDb)\<rparr>"
  have f2: "find (\<lambda>r. r_id r = ''r2'') (financeRecords sampleDb) = Some ?r2"
    and f3: "find (\<lambda>r. r_id r = ''r3'') (financeRecords sampleDb) = Some ?r3"
    by (simp_all add: sampleDb_def sampleRecord_def)
  have i2: "r_id ?s2 = ''r2''" by (simp add: sampleRecord_def)
  have f2': "find (\<lambda>r. r_id r = ''r2'') (financeRecords ?db2) = Some ?s2"
    using storeRecord_find [of ?s2 "financeRecords sampleDb"] unfolding i2 by simp
  have m: "membership (member1 i) ''org1'' = Some (''org1'', ''member'')" for i
    by (simp add: membership_def member1_def)
  have ad3: "addApproval ''u2'' ?r3 = ?s3" and ad2: "addApproval ''u1'' ?r2 = ?s2"
    and ad2': "addApproval ''u1'' ?s2 = ?s2"
    by (simp_all add: addApproval_def sampleRecord_def)
  have u: "u_id (member1 i) = i" for i by (simp add: member1_def)
  have sv3: "save sampleRuntime sampleDb ?s3
      = Inr (?s3, sampleDb\<lparr>financeRecords := storeRecord ?s3 (financeRecords sampleDb)\<rparr>)"
    unfolding save_def sample_preSave_pending by simp
  have sv2: "save sampleRuntime sampleDb ?s2 = Inr (?s2, ?db2)"
    unfolding save_def sample_preSave_pending by simp
  have sv2': "save sampleRuntime ?db2 ?s2
      = Inr (?s2, ?db2\<lparr>financeRecords := storeRecord ?s2 (financeRecords ?db2)\<rparr>)"
    unfolding save_def preSave_other_records sample_preSave_pending by simp
  have a3: "approveRecord sampleRuntime sampleDb (member1 ''u2'') ''org1'' ''r3''
      = (Response 200 (RecordBody ?s3),
         sampleDb\<lparr>financeRecords := storeRecord ?s3 (financeRecords sampleDb)\<rparr>)"
  proof -
    have "approveRecord sampleRuntime sampleDb (member1 ''u2'') ''org1'' ''r3'' =
           (case save sampleRuntime sampleDb (addApproval (u_id (member1 ''u2'')) ?r3) of
              Inl e \<Rightarrow> (serverError, sampleDb)
            | Inr (savedRecord, db') \<Rightarrow> (Response 200 (RecordBody savedRecord), db'))"
      by (rule approveRecord_reaches_save [OF m f3]) (simp_all add: sampleRecord_def u)
    then show ?thesis unfolding u ad3 sv3 by simp
  qed
  have a2: "approveRecord sampleRuntime sampleDb (member1 ''u1'') ''org1'' ''r2''
      = (Response 200 (RecordBody ?s2), ?db2)"
  proof -
    have "approveRecord sampleRuntime sampleDb (member1 ''u1'') ''org1'' ''r2'' =
           (case save sampleRuntime sampleDb (addApproval (u_id (member1 ''u1'')) ?r2) of
              Inl e \<Rightarrow> (serverError, sampleDb)
            | Inr (savedRecord, db') \<Rightarrow> (Response 200 (RecordBody savedRecord), db'))"
      by (rule approveRecord_reaches_save [OF m f2]) (simp_all add: sampleRecord_def u)
    then show ?thesis unfolding u ad2 sv2 by simp
  qed
  have a2': "approveRecord sampleRuntime ?db2 (member1 ''u1'') ''org1'' ''r2''
      = (Response 200 (RecordBody ?s2),
         ?db2\<lparr>financeRecords := storeRecord ?s2 (financeRecords ?db2)\<rparr>)"
  proof -
    have "approveRecord sampleRuntime ?db2 (member1 ''u1'') ''org1'' ''r2'' =
           (case save sampleRuntime ?db2 (addApproval (u_id (member1 ''u1'')) ?s2) of
              Inl e \<Rightarrow> (serverError, ?db2)
            | Inr (savedRecord, db') \<Rightarrow> (Response 200 (RecordBody savedRecord), db'))"
      by (rule approveRecord_reaches_save [OF m f2']) (simp_all add: sampleRecord_def u)
    then show ?thesis unfolding u ad2' sv2' by simp
  qed
  have a0: "approveRecord sampleRuntime sampleDb (member1 ''u3'') ''org1'' ''r2''
      = (Response 403 (Message ''You are not required to approve this record.''), sampleDb)"
    by (rule approveRecord_unauthorized [OF f2 m]) (simp_all add: sampleRecord_def u)
  have t3: "r_status ?r3 = ''pending_approval'' \<and> ''u2'' \<in> set (approvalsRequired ?r3)"
    using approveRecord_aggregation [OF f3 a3, THEN conjunct1] by (simp only: u simp_thms)
  have t2: "r_status ?r2 = ''pending_approval'' \<and> ''u1'' \<in> set (approvalsRequired ?r2)"
    using approveRecord_aggregation [OF f2 a2, THEN conjunct1] by (simp only: u simp_thms)
  have t2': "r_status ?s2 = ''pending_approval'' \<and> ''u1'' \<in> set (approvalsRequired ?s2)"
    using approveRecord_aggregation [OF f2' a2', THEN conjunct1] by (simp only: u simp_thms)
  have t0: "(403::nat) \<noteq> 200 \<longrightarrow> sampleDb = sampleDb"
    using approveRecord_aggregation [OF f2 a0, THEN conjunct2, THEN conjunct2, THEN conjunct1] .
  show ?thesis
    using t3 t2 t2' t0 by (simp only: a3 a2 a2' a0 fst_conv snd_conv simp_thms)
qed

section \<open>The approval rule engine\<close>

lemma pushApprovers_set: "set (pushApprovers acc as) = set acc \<union> set as"
  by (induction as arbitrary: acc) auto

lemma pushApprovers_distinct: "distinct acc \<Longrightarrow> distinct (pushApprovers acc as)"
  by (induction as arbitrary: acc) auto

lemma operatorsHold_Cons:
  "operatorsHold rt val (oc # rest) =
     ((fst oc = ''$gt'' \<longrightarrow> jsGreater rt val (snd oc))
      \<and> (fst oc = ''$lt'' \<longrightarrow> jsLess rt val (snd oc))
      \<and> (fst oc = ''$eq'' \<longrightarrow> strictEquals val (snd oc))
      \<and> operatorsHold rt val rest)"
  by (cases oc) auto

lemma operatorsHold_iff:
  "operatorsHold rt val cond =
     (\<forall>oc \<in> set cond.
        (fst oc = ''$gt'' \<longrightarrow> jsGreater rt val (snd oc))
        \<and> (fst oc = ''$lt'' \<longrightarrow> jsLess rt val (snd oc))
        \<and> (fst oc = ''$eq'' \<longrightarrow> strictEquals val (snd oc)))"
proof (induction cond)
  case Nil
  show ?case by simp
next
  case (Cons oc rest)
  show ?case
    unfolding operatorsHold_Cons Cons.IH by auto
qed

lemma passesCondition_Cons:
  "passesCondition rt (pc # rest) recordDoc
     = (operatorsHold rt (resolvePath rt (fst pc) recordDoc) (snd pc)
        \<and> passesCondition rt rest recordDoc)"
  by (cases pc) simp

lemma passesCondition_iff:
  "passesCondition rt conds recordDoc =
     (\<forall>pc \<in> set conds. operatorsHold rt (resolvePath rt (fst pc) recordDoc) (snd pc))"
proof (induction conds)
  case Nil
  show ?case by simp
next
  case (Cons pc rest)
  show ?case
    unfolding passesCondition_Cons Cons.IH by auto
qed

lemma collectApprovers_set:
  "set (collectApprovers rt recordDoc acc rules)
     = set acc \<union> (\<Union>rule \<in> {r \<in> set rules. passesCondition rt (conditions r) recordDoc}.
                      set (requiredApprovers rule))"
proof (induction rules arbitrary: acc)
  case Nil
  show ?case by simp
next
  case (Cons rule rules)
  show ?case
    by (auto simp add: Cons.IH pushApprovers_set)
qed

lemma collectApprovers_distinct:
  "distinct acc \<Longrightarrow> distinct (collectApprovers rt recordDoc acc rules)"
  by (induction rules arbitrary: acc) (simp_all add: pushApprovers_distinct)

lemma numLess_irrefl: "\<not> numLess n n"
  by (cases n) simp_all

lemma strLess_irrefl: "\<not> strLess s s"
  by (induction s) simp_all

lemma jsLess_irrefl: "\<not> jsLess rt v v"
  unfolding jsLess_def
  by (cases "toPrimitive rt v") (simp_all add: numLess_irrefl strLess_irrefl)

lemma jsLess_numbers: "jsLess rt (JNum (Finite a)) (JNum (Finite b)) = (a < b)"
  by (simp add: jsLess_def toPrimitive_def)

lemma numLess_NaN: "\<not> numLess NaN n" "\<not> numLess n NaN"
  by (cases n, simp_all)+

lemma jsLess_undefined: "\<not> jsLess rt JUndefined c" "\<not> jsLess rt c JUndefined"
proof -
  show "\<not> jsLess rt JUndefined c"
    by (simp add: jsLess_def toPrimitive_def numLess_NaN)
  show "\<not> jsLess rt c JUndefined"
    unfolding jsLess_def
    by (cases "toPrimitive rt c") (simp_all add: toPrimitive_def numLess_NaN)
qed

lemma numEquals_eq: "numEquals a b \<Longrightarrow> a = b"
  by (cases a; cases b) simp_all

lemma strictEquals_eq: "strictEquals v c \<Longrightarrow> v = c"
  by (cases v; cases c) (simp_all add: numEquals_eq)

lemma operatorsHold_undefined:
  assumes "oc \<in> set cond" and "fst oc \<in> {''$gt'', ''$lt'', ''$eq''}"
      and "snd oc \<noteq> JUndefined"
  shows "\<not> operatorsHold rt JUndefined cond"
proof -
  have "\<not> strictEquals JUndefined (snd oc)"
    using assms(3) strictEquals_eq by fastforce
  with assms(1,2) show ?thesis
    unfolding operatorsHold_iff
    by (auto simp add: jsGreater_def jsLess_undefined)
qed

lemma sample_paths:
  "resolvePath rt ''fields.amount'' (toObject (sampleRecord i st [(''amount'', JNum (Finite x))]))
     = JNum (Finite x)"
  "resolvePath rt ''fields.missing'' (toObject (sampleRecord i st [(''amount'', JNum (Finite x))]))
     = JUndefined"
  "resolvePath rt ''type'' (toObject (sampleRecord i st [(''amount'', JNum (Finite x))]))
     = JStr ''expense''"
  by (simp_all add: resolvePath_def toObject_def getProp_def mapGet_def sampleRecord_def)

lemma sample_rules:
  "collectApprovers rt (toObject (sampleRecord i st [(''amount'', JNum (Finite 5))])) []
     (filter (\<lambda>rule. rule_orgId rule = ''org1'') (approvalRules sampleDb)) = [''u1'', ''u2'']"
  "collectApprovers rt (toObject (sampleRecord i st [(''amount'', JNum (Finite 1))])) []
     (filter (\<lambda>rule. rule_orgId rule = ''org1'') (approvalRules sampleDb)) = []"
  by (simp_all add: sampleDb_def sample_paths jsGreater_def jsLess_def toPrimitive_def)

text \<open>
  C5, as claimed: a condition whose dotted path does not resolve (yielding undefined)
  satisfies no operator, so that rule does not pass. \<open>passesCondition\<close> tests \<open>$gt\<close>,
  \<open>$lt\<close> and \<open>$eq\<close> and passes over an entry with any other operator name. On a record
  without a field \<open>missing\<close>, the path \<open>fields.missing\<close> resolves to undefined, and the
  rule with the single condition \<open>fields.missing: { $gte: 3 }\<close> passes and contributes its
  approver.
\<close>

theorem unresolved_path_counterexample:
  "resolvePath sampleRuntime ''fields.missing''
     (toObject (sampleRecord ''r1'' ''pending_approval'' [(''amount'', JNum (Finite 5))]))
     = JUndefined
   \<and> passesCondition sampleRuntime [(''fields.missing'', [(''$gte'', JNum (Finite 3))])]
       (toObject (sampleRecord ''r1'' ''pending_approval'' [(''amount'', JNum (Finite 5))]))
   \<and> collectApprovers sampleRuntime
       (toObject (sampleRecord ''r1'' ''pending_approval'' [(''amount'', JNum (Finite 5))])) []
       [\<lparr>rule_orgId = ''org1'',
         conditions = [(''fields.missing'', [(''$gte'', JNum (Finite 3))])],
         requiredApprovers = [''u3'']\<rparr>] = [''u3'']"
  by (simp add: sample_paths)

text \<open>
  C5, amended. For every record document and every list of rules:
  \<^item> the approvers the loops of updateRecord collect are, as a set, the union of
    \<open>requiredApprovers\<close> over exactly the rules for which \<open>passesCondition\<close> holds, and
    the array holds no approver twice;
  \<^item> \<open>passesCondition\<close> holds exactly when, for every condition entry, every operator
    entry named \<open>$gt\<close>, \<open>$lt\<close> or \<open>$eq\<close> holds of the value the path resolves to (an
    entry with any other operator name is passed over); in particular a rule with two
    conditions passes only when both do;
  \<^item> \<open>$gt\<close> and \<open>$lt\<close> are the strict order on numbers and no value is above or below
    itself; \<open>$eq\<close> holds only between equal values, and between numbers exactly when
    they are equal;
  \<^item> undefined is neither above nor below any literal and equals no literal (a stored
    literal is never undefined), so a rule with a condition whose path resolves to
    undefined, and which carries one of the three operators, does not pass;
  \<^item> a condition that carries none of the three operators is satisfied whatever its path
    resolves to.
\<close>

theorem requiredApprovers_union_of_passing_rules:
  "set (collectApprovers rt recordDoc [] rules)
     = (\<Union>rule \<in> {r \<in> set rules. passesCondition rt (conditions r) recordDoc}.
          set (requiredApprovers rule))
   \<and> distinct (collectApprovers rt recordDoc [] rules)
   \<and> (passesCondition rt conds recordDoc \<longleftrightarrow>
        (\<forall>pc \<in> set conds. operatorsHold rt (resolvePath rt (fst pc) recordDoc) (snd pc)))
   \<and> (operatorsHold rt val cond \<longleftrightarrow>
        (\<forall>oc \<in> set cond.
           (fst oc = ''$gt'' \<longrightarrow> jsGreater rt val (snd oc))
           \<and> (fst oc = ''$lt'' \<longrightarrow> jsLess rt val (snd oc))
           \<and> (fst oc = ''$eq'' \<longrightarrow> strictEquals val (snd oc))))
   \<and> (passesCondition rt [c1, c2] recordDoc \<longleftrightarrow>
        passesCondition rt [c1] recordDoc \<and> passesCondition rt [c2] recordDoc)
   \<and> (operatorsHold rt (JNum (Finite a)) [(''$gt'', JNum (Finite b))] \<longleftrightarrow> b < a)
   \<and> (operatorsHold rt (JNum (Finite a)) [(''$lt'', JNum (Finite b))] \<longleftrightarrow> a < b)
   \<and> \<not> operatorsHold rt v [(''$gt'', v)]
   \<and> \<not> operatorsHold rt v [(''$lt'', v)]
   \<and> (operatorsHold rt v [(''$eq'', c)] \<longrightarrow> v = c)
   \<and> (operatorsHold rt (JNum (Finite a)) [(''$eq'', JNum (Finite b))] \<longleftrightarrow> a = b)
   \<and> \<not> operatorsHold rt JUndefined [(''$gt'', c)]
   \<and> \<not> operatorsHold rt JUndefined [(''$lt'', c)]
   \<and> (c \<noteq> JUndefined \<longrightarrow> \<not> operatorsHold rt JUndefined [(''$eq'', c)])
   \<and> (resolvePath rt path recordDoc = JUndefined \<and> (path, cond) \<in> set (conditions rule)
        \<and> (\<exists>oc \<in> set cond. fst oc \<in> {''$gt'', ''$lt'', ''$eq''} \<and> snd oc \<noteq> JUndefined)
        \<longrightarrow> \<not> passesCondition rt (conditions rule) recordDoc)
   \<and> ((\<forall>oc \<in> set cond. fst oc \<notin> {''$gt'', ''$lt'', ''$eq''}) \<longrightarrow> operatorsHold rt val cond)"
proof -
  have u: "resolvePath rt path recordDoc = JUndefined \<and> (path, cond) \<in> set (conditions rule)
        \<and> (\<exists>oc \<in> set cond. fst oc \<in> {''$gt'', ''$lt'', ''$eq''} \<and> snd oc \<noteq> JUndefined)
        \<longrightarrow> \<not> passesCondition rt (conditions rule) recordDoc"
  proof
    assume h: "resolvePath rt path recordDoc = JUndefined \<and> (path, cond) \<in> set (conditions rule)
        \<and> (\<exists>oc \<in> set cond. fst oc \<in> {''$gt'', ''$lt'', ''$eq''} \<and> snd oc \<noteq> JUndefined)"
    then obtain oc where oc: "oc \<in> set cond" "fst oc \<in> {''$gt'', ''$lt'', ''$eq''}"
      "snd oc \<noteq> JUndefined" by blast
    have "\<not> operatorsHold rt JUndefined cond"
      using operatorsHold_undefined [OF oc] .
    with h have "\<not> operatorsHold rt (resolvePath rt (fst (path, cond)) recordDoc) (snd (path, cond))"
      by simp
    with h show "\<not> passesCondition rt (conditions rule) recordDoc"
      unfolding passesCondition_iff by blast
  qed
  have e: "operatorsHold rt v [(''$eq'', c)] \<longrightarrow> v = c"
    using strictEquals_eq [of v c] by auto
  have n: "c \<noteq> JUndefined \<longrightarrow> \<not> operatorsHold rt JUndefined [(''$eq'', c)]"
    using strictEquals_eq [of JUndefined c] by auto
  have s: "passesCondition rt [c1, c2] recordDoc \<longleftrightarrow>
        passesCondition rt [c1] recordDoc \<and> passesCondition rt [c2] recordDoc"
    by (simp add: passesCondition_iff)
  have p: "passesCondition rt conds recordDoc \<longleftrightarrow>
        (\<forall>pc \<in> set conds. operatorsHold rt (resolvePath rt (fst pc) recordDoc) (snd pc))"
    by (rule passesCondition_iff)
  have o: "operatorsHold rt val cond \<longleftrightarrow>
        (\<forall>oc \<in> set cond.
           (fst oc = ''$gt'' \<longrightarrow> jsGreater rt val (snd oc))
           \<and> (fst oc = ''$lt'' \<longrightarrow> jsLess rt val (snd oc))
           \<and> (fst oc = ''$eq'' \<longrightarrow> strictEquals val (snd oc)))"
    by (rule operatorsHold_iff)
  have k: "(\<forall>oc \<in> set cond. fst oc \<notin> {''$gt'', ''$lt'', ''$eq''}) \<longrightarrow> operatorsHold rt val cond"
    unfolding operatorsHold_iff by auto
  have g: "(operatorsHold rt (JNum (Finite a)) [(''$gt'', JNum (Finite b))] \<longleftrightarrow> b < a)
      \<and> (operatorsHold rt (JNum (Finite a)) [(''$lt'', JNum (Finite b))] \<longleftrightarrow> a < b)
      \<and> \<not> operatorsHold rt v [(''$gt'', v)]
      \<and> \<not> operatorsHold rt v [(''$lt'', v)]"
    by (simp add: jsGreater_def jsLess_irrefl jsLess_numbers)
  have q: "(operatorsHold rt (JNum (Finite a)) [(''$eq'', JNum (Finite b))] \<longleftrightarrow> a = b)
      \<and> \<not> operatorsHold rt JUndefined [(''$gt'', c)]
      \<and> \<not> operatorsHold rt JUndefined [(''$lt'', c)]"
    by (simp add: jsGreater_def jsLess_undefined)
  have a1: "set (collectApprovers rt recordDoc [] rules)
     = (\<Union>rule \<in> {r \<in> set rules. passesCondition rt (conditions r) recordDoc}.
          set (requiredApprovers rule))"
    by (simp add: collectApprovers_set)
  have a2: "distinct (collectApprovers rt recordDoc [] rules)"
    by (simp add: collectApprovers_distinct)
  show ?thesis
    apply (intro conjI)
    using a1 a2 p o s g e q n u k by blast+
qed

theorem requiredApprovers_union_of_passing_rules_witness:
  "collectApprovers sampleRuntime
     (toObject (sampleRecord ''r1'' ''pending_approval'' [(''amount'', JNum (Finite 5))])) []
     (filter (\<lambda>rule. rule_orgId rule = ''org1'') (approvalRules sampleDb)) = [''u1'', ''u2'']
   \<and> resolvePath sampleRuntime ''fields.missing''
       (toObject (sampleRecord ''r1'' ''pending_approval'' [(''amount'', JNum (Finite 5))]))
       = JUndefined
   \<and> \<not> passesCondition sampleRuntime
         (conditions \<lparr>rule_orgId = ''org1'',
                      conditions = [(''fields.missing'', [(''$lt'', JNum (Finite 3))])],
                      requiredApprovers = [''u3'']\<rparr>)
         (toObject (sampleRecord ''r1'' ''pending_approval'' [(''amount'', JNum (Finite 5))]))
   \<and> operatorsHold sampleRuntime JUndefined [(''$gte'', JNum (Finite 3))]"
proof -
  let ?doc = "toObject (sampleRecord ''r1'' ''pending_approval'' [(''amount'', JNum (Finite 5))])"
  let ?rule = "\<lparr>rule_orgId = ''org1'',
                conditions = [(''fields.missing'', [(''$lt'', JNum (Finite 3))])],
                requiredApprovers = [''u3'']\<rparr>"
  have h: "resolvePath sampleRuntime ''fields.missing'' ?doc = JUndefined
           \<and> (''fields.missing'', [(''$lt'', JNum (Finite 3))]) \<in> set (conditions ?rule)
           \<and> (\<exists>oc \<in> set [(''$lt'', JNum (Finite 3))].
                 fst oc \<in> {''$gt'', ''$lt'', ''$eq''} \<and> snd oc \<noteq> JUndefined)"
    by (simp add: sample_paths)
  have h2: "\<forall>oc \<in> set [(''$gte'', JNum (Finite 3))]. fst oc \<notin> {''$gt'', ''$lt'', ''$eq''}"
    by simp
  have one: "\<not> passesCondition sampleRuntime (conditions ?rule) ?doc"
    using requiredApprovers_union_of_passing_rules
      [of sampleRuntime ?doc "[]" "[]" JNull "[(''$lt'', JNum (Finite 3))]"
          "(''a'', [])" "(''b'', [])" 0 0 JNull JNull "''fields.missing''" ?rule,
       THEN conjunct2, THEN conjunct2, THEN conjunct2, THEN conjunct2, THEN conjunct2,
       THEN conjunct2, THEN conjunct2, THEN conjunct2, THEN conjunct2, THEN conjunct2,
       THEN conjunct2, THEN conjunct2, THEN conjunct2, THEN conjunct2, THEN conjunct1,
       THEN mp, OF h] .
  have two: "operatorsHold sampleRuntime JUndefined [(''$gte'', JNum (Finite 3))]"
    using requiredApprovers_union_of_passing_rules
      [of sampleRuntime ?doc "[]" "[]" JUndefined "[(''$gte'', JNum (Finite 3))]"
          "(''a'', [])" "(''b'', [])" 0 0 JNull JNull "''fields.missing''" ?rule,
       THEN conjunct2, THEN conjunct2, THEN conjunct2, THEN conjunct2, THEN conjunct2,
       THEN conjunct2, THEN conjunct2, THEN conjunct2, THEN conjunct2, THEN conjunct2,
       THEN conjunct2, THEN conjunct2, THEN conjunct2, THEN conjunct2, THEN conjunct2,
       THEN mp, OF h2] .
  from one two show ?thesis
    by (simp only: sample_rules sample_paths simp_thms)
qed

section \<open>updateRecord: the transition into pending_approval\<close>

lemma updateType_Inr:
  assumes "updateType req r = Inr r1"
  shows "r_status r1 = r_status r" and "approvalsRequired r1 = approvalsRequired r"
    and "approvalsGiven r1 = approvalsGiven r"
  using assms unfolding updateType_def
  by (cases "q_type req"; simp split: if_splits; fastforce)+

lemma updateType_Inl:
  assumes "updateType req r = Inl resp"
  shows "\<exists>msg. resp = Response 400 (Message msg)"
  using assms unfolding updateType_def
  by (cases "q_type req") (auto split: if_splits)

lemma updateCategory_Inr:
  assumes "updateCategory db orgId req r = Inr r1"
  shows "r_status r1 = r_status r" and "approvalsRequired r1 = approvalsRequired r"
    and "approvalsGiven r1 = approvalsGiven r"
  using assms unfolding updateCategory_def
  by (auto split: option.splits if_splits)

lemma updateCategory_Inl:
  assumes "updateCategory db orgId req r = Inl resp"
  shows "\<exists>msg. resp = Response 400 (Message msg)"
  using assms unfolding updateCategory_def
  by (auto split: option.splits if_splits)

lemma updatePartner_Inr:
  assumes "updatePartner db orgId req r = Inr r1"
  shows "r1 = r"
  using assms unfolding updatePartner_def
  by (auto split: option.splits if_splits)

lemma updatePartner_Inl:
  assumes "updatePartner db orgId req r = Inl resp"
  shows "\<exists>msg. resp = Response 400 (Message msg)"
  using assms unfolding updatePartner_def
  by (auto split: option.splits if_splits)

lemma assignBody_keeps:
  "approvalsRequired (assignBody req r) = approvalsRequired r"
  "approvalsGiven (assignBody req r) = approvalsGiven r"
  "r_status (assignBody req r) = (case q_status req of None \<Rightarrow> r_status r | Some s \<Rightarrow> s)"
  by (simp_all add: assignBody_def Let_def split: option.splits)

lemma applyUpdates_Inr:
  assumes "applyUpdates db orgId req r = Inr r4"
  shows "approvalsRequired r4 = approvalsRequired r"
    and "approvalsGiven r4 = approvalsGiven r"
    and "r_status r4 = (case q_status req of None \<Rightarrow> r_status r | Some s \<Rightarrow> s)"
proof -
  obtain r1 where t: "updateType req r = Inr r1"
    using assms by (cases "updateType req r") (simp_all add: applyUpdates_def)
  obtain r2 where c: "updateCategory db orgId req r1 = Inr r2"
    using assms t by (cases "updateCategory db orgId req r1") (simp_all add: applyUpdates_def)
  obtain r3 where p: "updatePartner db orgId req r2 = Inr r3"
    using assms t c by (cases "updatePartner db orgId req r2") (simp_all add: applyUpdates_def)
  have r4: "r4 = assignBody req r2"
    using assms t c p updatePartner_Inr [OF p] by (simp add: applyUpdates_def)
  show "approvalsRequired r4 = approvalsRequired r"
    by (simp add: r4 assignBody_keeps updateCategory_Inr(2) [OF c] updateType_Inr(2) [OF t])
  show "approvalsGiven r4 = approvalsGiven r"
    by (simp add: r4 assignBody_keeps updateCategory_Inr(3) [OF c] updateType_Inr(3) [OF t])
  have "r_status r2 = r_status r"
    by (simp add: updateCategory_Inr(1) [OF c] updateType_Inr(1) [OF t])
  then show "r_status r4 = (case q_status req of None \<Rightarrow> r_status r | Some s \<Rightarrow> s)"
    by (simp add: r4 assignBody_keeps split: option.splits)
qed

lemma applyUpdates_Inl:
  assumes "applyUpdates db orgId req r = Inl resp"
  shows "\<exists>msg. resp = Response 400 (Message msg)"
proof (cases "updateType req r")
  case (Inl x)
  with assms updateType_Inl [OF Inl] show ?thesis by (simp add: applyUpdates_def)
next
  case t: (Inr r1)
  show ?thesis
  proof (cases "updateCategory db orgId req r1")
    case (Inl x)
    with assms t updateCategory_Inl [OF Inl] show ?thesis by (simp add: applyUpdates_def)
  next
    case c: (Inr r2)
    show ?thesis
    proof (cases "updatePartner db orgId req r2")
      case (Inl x)
      with assms t c updatePartner_Inl [OF Inl] show ?thesis by (simp add: applyUpdates_def)
    next
      case (Inr r3)
      with assms t c show ?thesis by (simp add: applyUpdates_def)
    qed
  qed
qed

lemma updateRecord_200:
  assumes f: "find (\<lambda>r. r_id r = recordId) (financeRecords db) = Some rec0"
      and a: "updateRecord rt db u orgId recordId req = (Response 200 (RecordBody saved), db')"
  obtains r4 where "applyUpdates db orgId req rec0 = Inr r4"
    and "save rt db (if statusChangedToPendingApproval req rec0
                     then approvalLogic rt db orgId r4 else r4) = Inr (saved, db')"
proof -
  obtain m where m: "membership u orgId = Some m"
    using a by (cases "membership u orgId") (simp_all add: updateRecord_def notMember_def)
  have o: "r_orgId rec0 = orgId"
    using a m f by (cases "r_orgId rec0 = orgId") (simp_all add: updateRecord_def)
  obtain r4 where r4: "applyUpdates db orgId req rec0 = Inr r4"
  proof (cases "applyUpdates db orgId req rec0")
    case (Inl resp)
    with applyUpdates_Inl [OF Inl] a m f o show ?thesis by (auto simp add: updateRecord_def)
  next
    case (Inr r)
    with that show ?thesis by blast
  qed
  let ?r5 = "if statusChangedToPendingApproval req rec0
             then approvalLogic rt db orgId r4 else r4"
  have "save rt db ?r5 = Inr (saved, db')"
    using a m f o r4
    by (cases "save rt db ?r5") (auto simp add: updateRecord_def serverError_def Let_def)
  with r4 that show thesis by blast
qed

lemma approvalLogic_pending:
  assumes "r_status r = ''pending_approval''"
  shows "approvalsRequired (approvalLogic rt db orgId r)
           = collectApprovers rt (toObject r) []
               (filter (\<lambda>rule. rule_orgId rule = orgId) (approvalRules db))"
    and "approvalsGiven (approvalLogic rt db orgId r) = []"
    and "r_status (approvalLogic rt db orgId r)
           = (if approvalsRequired (approvalLogic rt db orgId r) = [] then ''approved''
              else ''pending_approval'')"
  using assms by (simp_all add: approvalLogic_def Let_def)

lemma updateRecord_reaches_save:
  assumes "membership u orgId = Some m"
      and "find (\<lambda>r. r_id r = recordId) (financeRecords db) = Some rec0"
      and "r_orgId rec0 = orgId"
      and "applyUpdates db orgId req rec0 = Inr r4"
  shows "updateRecord rt db u orgId recordId req =
           (case save rt db (if statusChangedToPendingApproval req rec0
                             then approvalLogic rt db orgId r4 else r4) of
              Inl e \<Rightarrow> (serverError, db)
            | Inr (updatedRecord, db') \<Rightarrow> (Response 200 (RecordBody updatedRecord), db'))"
  using assms by (simp add: updateRecord_def Let_def)

lemma sample_preSave_amount:
  assumes "r_orgId r = ''org1''" and "r_type r = ''expense''" and "r_categoryId r = Some ''c1''"
      and "r_status r \<in> set [''draft'', ''pending_approval'', ''approved'', ''paid'', ''completed'']"
      and "r_frequency r = ''none''" and "r_fields r = [(''amount'', JNum n)]"
  shows "preSave rt sampleDb r = Inr r"
proof -
  have sv: "schemaValidate r = Inr ()"
    using assms by (simp add: schemaValidate_def)
  have vr: "validateReferences sampleDb r = Inr [numberDef ''f1'' ''amount'' True]"
    using assms
    by (simp add: validateReferences_def sampleDb_def numberDef_def formulaDef_def typeAllowed_def)
  have ev: "evaluateFormulas rt (r_fields r) [numberDef ''f1'' ''amount'' True] = Inr (r_fields r)"
    by (simp add: evaluateFormulas_def evaluateOne_def numberDef_def)
  have ca: "checkAmounts [numberDef ''f1'' ''amount'' True] (r_fields r) = Inr ()"
    using assms by (simp add: checkAmounts_def numberDef_def mapGet_def mapHas_def)
  show ?thesis
    by (simp add: preSave_def sv vr ev ca)
qed

lemma sample_save_amount:
  assumes "r_orgId r = ''org1''" and "r_type r = ''expense''" and "r_categoryId r = Some ''c1''"
      and "r_status r \<in> set [''draft'', ''pending_approval'', ''approved'', ''paid'', ''completed'']"
      and "r_frequency r = ''none''" and "r_fields r = [(''amount'', JNum n)]"
  shows "save rt sampleDb r
           = Inr (r, sampleDb\<lparr>financeRecords := storeRecord r (financeRecords sampleDb)\<rparr>)"
  by (simp add: save_def sample_preSave_amount [OF assms])

text \<open>
  C4. For a stored record and a successful update (200):
  \<^item> when the body asks for \<open>pending_approval\<close> and the stored status differs, the saved
    \<open>approvalsRequired\<close> is the array collected from all the rules of the organization,
    evaluated against the document as updated by the body; \<open>approvalsGiven\<close> is empty,
    whatever it held; the status is \<open>approved\<close> when no approver is required (with
    \<open>approvalsRequired\<close> empty) and \<open>pending_approval\<close> otherwise;
  \<^item> when the requested status equals the stored one, the two arrays and the status are
    those of the stored record; more generally the arrays are untouched by any update
    that is not a change into \<open>pending_approval\<close>;
  \<^item> the saved record is in the store.
\<close>

theorem updateRecord_pending_approval:
  assumes f: "find (\<lambda>r. r_id r = recordId) (financeRecords db) = Some rec0"
      and a: "updateRecord rt db u orgId recordId req = (Response 200 (RecordBody saved), db')"
  shows "(q_status req = Some ''pending_approval'' \<and> r_status rec0 \<noteq> ''pending_approval'' \<longrightarrow>
           (\<exists>r4. applyUpdates db orgId req rec0 = Inr r4
              \<and> approvalsRequired saved
                  = collectApprovers rt (toObject r4) []
                      (filter (\<lambda>rule. rule_orgId rule = orgId) (approvalRules db))
              \<and> approvalsGiven saved = []
              \<and> (approvalsRequired saved = [] \<longrightarrow> r_status saved = ''approved'')
              \<and> (approvalsRequired saved \<noteq> [] \<longrightarrow> r_status saved = ''pending_approval'')))
       \<and> (q_status req = Some (r_status rec0) \<longrightarrow>
            approvalsRequired saved = approvalsRequired rec0
            \<and> approvalsGiven saved = approvalsGiven rec0
            \<and> r_status saved = r_status rec0)
       \<and> (\<not> (q_status req = Some ''pending_approval'' \<and> r_status rec0 \<noteq> ''pending_approval'') \<longrightarrow>
            approvalsRequired saved = approvalsRequired rec0
            \<and> approvalsGiven saved = approvalsGiven rec0)
       \<and> saved \<in> set (financeRecords db')"
proof -
  from updateRecord_200 [OF f a] obtain r4 where
    r4: "applyUpdates db orgId req rec0 = Inr r4" and
    s: "save rt db (if statusChangedToPendingApproval req rec0
                    then approvalLogic rt db orgId r4 else r4) = Inr (saved, db')" by blast
  note k = applyUpdates_Inr [OF r4]
  note sr = save_result [OF s]
  have ch: "statusChangedToPendingApproval req rec0
              = (q_status req = Some ''pending_approval'' \<and> r_status rec0 \<noteq> ''pending_approval'')"
    by (auto simp add: statusChangedToPendingApproval_def split: option.splits)
  have one: "\<exists>r4. applyUpdates db orgId req rec0 = Inr r4
              \<and> approvalsRequired saved
                  = collectApprovers rt (toObject r4) []
                      (filter (\<lambda>rule. rule_orgId rule = orgId) (approvalRules db))
              \<and> approvalsGiven saved = []
              \<and> (approvalsRequired saved = [] \<longrightarrow> r_status saved = ''approved'')
              \<and> (approvalsRequired saved \<noteq> [] \<longrightarrow> r_status saved = ''pending_approval'')"
    if c: "q_status req = Some ''pending_approval'' \<and> r_status rec0 \<noteq> ''pending_approval''"
  proof -
    have p: "r_status r4 = ''pending_approval''" using k(3) c by simp
    note al = approvalLogic_pending [OF p, of rt db orgId]
    have "approvalsRequired saved = approvalsRequired (approvalLogic rt db orgId r4)"
      "approvalsGiven saved = approvalsGiven (approvalLogic rt db orgId r4)"
      "r_status saved = r_status (approvalLogic rt db orgId r4)"
      using sr(2,3,4) c ch by simp_all
    with al r4 show ?thesis by simp
  qed
  have two: "approvalsRequired saved = approvalsRequired rec0
            \<and> approvalsGiven saved = approvalsGiven rec0"
    if c: "\<not> (q_status req = Some ''pending_approval'' \<and> r_status rec0 \<noteq> ''pending_approval'')"
    using sr(3,4) c ch k(1,2) by simp
  have three: "approvalsRequired saved = approvalsRequired rec0
            \<and> approvalsGiven saved = approvalsGiven rec0
            \<and> r_status saved = r_status rec0"
    if c: "q_status req = Some (r_status rec0)"
  proof -
    have n: "\<not> (q_status req = Some ''pending_approval'' \<and> r_status rec0 \<noteq> ''pending_approval'')"
      using c by auto
    have "r_status saved = r_status r4" using sr(2) n ch by simp
    with two [OF n] k(3) c show ?thesis by simp
  qed
  from one two three sr(6) show ?thesis by blast
qed

theorem updateRecord_pending_approval_witness:
  "fst (updateRecord sampleRuntime sampleDb (member1 ''u1'') ''org1'' ''r1''
          (emptyRequest\<lparr>q_status := Some ''pending_approval''\<rparr>))
     = Response 200 (RecordBody
         ((sampleRecord ''r1'' ''pending_approval'' [(''amount'', JNum (Finite 5))])
            \<lparr>approvalsRequired := [''u1'', ''u2'']\<rparr>))
   \<and> fst (updateRecord sampleRuntime sampleDb (member1 ''u1'') ''org1'' ''r1''
          (emptyRequest\<lparr>q_status := Some ''pending_approval'',
                          q_fields := Some [(''amount'', JNum (Finite 1))]\<rparr>))
     = Response 200 (RecordBody (sampleRecord ''r1'' ''approved'' [(''amount'', JNum (Finite 1))]))
   \<and> fst (updateRecord sampleRuntime sampleDb (member1 ''u3'') ''org1'' ''r3''
          (emptyRequest\<lparr>q_status := Some ''pending_approval''\<rparr>))
     = Response 200 (RecordBody
         ((sampleRecord ''r3'' ''pending_approval'' [(''amount'', JNum (Finite 5))])
            \<lparr>approvalsRequired := [''u1'', ''u2''], approvalsGiven := [''u1'']\<rparr>))"
proof -
  let ?r1 = "sampleRecord ''r1'' ''draft'' [(''amount'', JNum (Finite 5))]"
  let ?r3 = "(sampleRecord ''r3'' ''pending_approval'' [(''amount'', JNum (Finite 5))])
               \<lparr>approvalsRequired := [''u1'', ''u2''], approvalsGiven := [''u1'']\<rparr>"
  let ?reqA = "emptyRequest\<lparr>q_status := Some ''pending_approval''\<rparr>"
  let ?reqB = "emptyRequest\<lparr>q_status := Some ''pending_approval'',
                            q_fields := Some [(''amount'', JNum (Finite 1))]\<rparr>"
  let ?sA = "(sampleRecord ''r1'' ''pending_approval'' [(''amount'', JNum (Finite 5))])
               \<lparr>approvalsRequired := [''u1'', ''u2'']\<rparr>"
  let ?sB = "sampleRecord ''r1'' ''approved'' [(''amount'', JNum (Finite 1))]"
  have f1: "find (\<lambda>r. r_id r = ''r1'') (financeRecords sampleDb) = Some ?r1"
    and f3: "find (\<lambda>r. r_id r = ''r3'') (financeRecords sampleDb) = Some ?r3"
    by (simp_all add: sampleDb_def sampleRecord_def)
  have m: "membership (member1 i) ''org1'' = Some (''org1'', ''member'')" for i
    by (simp add: membership_def member1_def)
  have o: "r_orgId ?r1 = ''org1''" "r_orgId ?r3 = ''org1''"
    by (simp_all add: sampleRecord_def)
  have uA: "applyUpdates sampleDb ''org1'' ?reqA ?r1
              = Inr (sampleRecord ''r1'' ''pending_approval'' [(''amount'', JNum (Finite 5))])"
    and uB: "applyUpdates sampleDb ''org1'' ?reqB ?r1
              = Inr (sampleRecord ''r1'' ''pending_approval'' [(''amount'', JNum (Finite 1))])"
    and uC: "applyUpdates sampleDb ''org1'' ?reqA ?r3 = Inr ?r3"
    by (simp_all add: applyUpdates_def updateType_def updateCategory_def updatePartner_def
        assignBody_def emptyRequest_def sampleRecord_def)
  have ch: "statusChangedToPendingApproval ?reqA ?r1" "statusChangedToPendingApproval ?reqB ?r1"
    "\<not> statusChangedToPendingApproval ?reqA ?r3"
    by (simp_all add: statusChangedToPendingApproval_def sampleRecord_def)
  have st: "r_status (sampleRecord i s fl) = s" for i s fl
    by (simp add: sampleRecord_def)
  have lA: "approvalLogic sampleRuntime sampleDb ''org1''
              (sampleRecord ''r1'' ''pending_approval'' [(''amount'', JNum (Finite 5))]) = ?sA"
    unfolding approvalLogic_def Let_def st sample_rules
    by (simp add: sampleRecord_def)
  have lB: "approvalLogic sampleRuntime sampleDb ''org1''
              (sampleRecord ''r1'' ''pending_approval'' [(''amount'', JNum (Finite 1))]) = ?sB"
    unfolding approvalLogic_def Let_def st sample_rules
    by (simp add: sampleRecord_def)
  have svA: "save sampleRuntime sampleDb ?sA
               = Inr (?sA, sampleDb\<lparr>financeRecords := storeRecord ?sA (financeRecords sampleDb)\<rparr>)"
    by (rule sample_save_amount) (simp_all add: sampleRecord_def)
  have svB: "save sampleRuntime sampleDb ?sB
               = Inr (?sB, sampleDb\<lparr>financeRecords := storeRecord ?sB (financeRecords sampleDb)\<rparr>)"
    by (rule sample_save_amount) (simp_all add: sampleRecord_def)
  have svC: "save sampleRuntime sampleDb ?r3
               = Inr (?r3, sampleDb\<lparr>financeRecords := storeRecord ?r3 (financeRecords sampleDb)\<rparr>)"
    by (rule sample_save_amount) (simp_all add: sampleRecord_def)
  have a: "updateRecord sampleRuntime sampleDb (member1 ''u1'') ''org1'' ''r1'' ?reqA
             = (Response 200 (RecordBody ?sA),
                sampleDb\<lparr>financeRecords := storeRecord ?sA (financeRecords sampleDb)\<rparr>)"
    unfolding updateRecord_reaches_save [OF m f1 o(1) uA] if_P [OF ch(1)] lA svA by simp
  have b: "updateRecord sampleRuntime sampleDb (member1 ''u1'') ''org1'' ''r1'' ?reqB
             = (Response 200 (RecordBody ?sB),
                sampleDb\<lparr>financeRecords := storeRecord ?sB (financeRecords sampleDb)\<rparr>)"
    unfolding updateRecord_reaches_save [OF m f1 o(1) uB] if_P [OF ch(2)] lB svB by simp
  have c: "updateRecord sampleRuntime sampleDb (member1 ''u3'') ''org1'' ''r3'' ?reqA
             = (Response 200 (RecordBody ?r3),
                sampleDb\<lparr>financeRecords := storeRecord ?r3 (financeRecords sampleDb)\<rparr>)"
    unfolding updateRecord_reaches_save [OF m f3 o(2) uC] if_not_P [OF ch(3)] svC by simp
  have ta: "?sA \<in> set (storeRecord ?sA (financeRecords sampleDb))"
    using updateRecord_pending_approval [OF f1 a, THEN conjunct2, THEN conjunct2, THEN conjunct2]
    by simp
  have tb: "approvalsGiven ?sB = []"
    using updateRecord_pending_approval [OF f1 b, THEN conjunct1] uB
    by (simp add: sampleRecord_def)
  have tc: "approvalsGiven ?r3 = approvalsGiven ?r3"
    using updateRecord_pending_approval [OF f3 c, THEN conjunct2, THEN conjunct2, THEN conjunct1]
    by (simp add: sampleRecord_def)
  show ?thesis
    using ta tb tc by (simp only: a b c fst_conv simp_thms)
qed

section \<open>Formulas: an identifier that does not resolve\<close>

lemma replaceCallback_substitutable:
  assumes "isIdentifier t" and "substitutable ntv t"
  shows "replaceCallback rt ntv n t = Inr (substituteRun rt ntv t)"
proof (cases "ntv t")
  case None
  with assms show ?thesis
    by (simp add: replaceCallback_def substituteRun_def substitutable_def)
next
  case (Some v)
  with assms obtain x where "v = JNum x"
    by (cases v) (simp_all add: substitutable_def)
  with Some assms(1) show ?thesis
    by (simp add: replaceCallback_def substituteRun_def)
qed

lemma substituteRun_other: "\<not> isIdentifier t \<Longrightarrow> substituteRun rt ntv t = t"
  by (simp add: substituteRun_def)

lemma replaceRuns_substitutable:
  assumes "\<forall>t \<in> set ts. isIdentifier t \<longrightarrow> substitutable ntv t"
  shows "replaceRuns (replaceCallback rt ntv n) ts = Inr (concat (map (substituteRun rt ntv) ts))"
  using assms
proof (induction ts)
  case Nil
  show ?case by simp
next
  case (Cons t ts)
  then have ih: "replaceRuns (replaceCallback rt ntv n) ts
                   = Inr (concat (map (substituteRun rt ntv) ts))" by simp
  show ?case
  proof (cases t)
    case Nil
    then have "substituteRun rt ntv t = []"
      by (simp add: substituteRun_other isIdentifier_def)
    with ih Nil show ?thesis by simp
  next
    case (Cons c cs)
    show ?thesis
    proof (cases "isIdentStart c")
      case True
      then have i: "isIdentifier t" by (simp add: isIdentifier_def Cons)
      with Cons.prems have "substitutable ntv t" by simp
      from replaceCallback_substitutable [OF i this, of rt n] ih True show ?thesis
        by (simp add: Cons)
    next
      case False
      then have "\<not> isIdentifier t" by (simp add: isIdentifier_def Cons)
      then have "substituteRun rt ntv t = t" by (rule substituteRun_other)
      with ih False Cons show ?thesis by simp
    qed
  qed
qed

lemma replaceIdentifiers_substitutable:
  assumes "\<forall>t \<in> set (wordRuns [] expr). isIdentifier t \<longrightarrow> substitutable ntv t"
  shows "replaceIdentifiers (replaceCallback rt ntv n) expr = Inr (substituteText rt ntv expr)"
  unfolding replaceIdentifiers_def substituteText_def
  by (rule replaceRuns_substitutable [OF assms])

lemma formulaOutcome_substituted:
  assumes "\<forall>expr. fd_type fd = ''formula'' \<and> fd_expression fd = Some expr \<longrightarrow>
             (\<forall>t \<in> set (wordRuns [] expr). isIdentifier t \<longrightarrow> substitutable ntv t)"
  shows "formulaOutcome rt ntv fd = substitutedOutcome rt ntv fd"
proof (cases "fd_type fd = ''formula''")
  case False
  then show ?thesis by (simp add: formulaOutcome_def substitutedOutcome_def)
next
  case True
  show ?thesis
  proof (cases "fd_expression fd")
    case None
    with True show ?thesis by (simp add: formulaOutcome_def substitutedOutcome_def)
  next
    case (Some expr)
    with True assms have
      "\<forall>t \<in> set (wordRuns [] expr). isIdentifier t \<longrightarrow> substitutable ntv t" by simp
    from replaceIdentifiers_substitutable [OF this, of rt "fd_name fd"] True Some
    show ?thesis by (simp add: formulaOutcome_def substitutedOutcome_def)
  qed
qed

lemma evaluateOne_substituted:
  assumes "\<forall>expr. fd_type fd = ''formula'' \<and> fd_expression fd = Some expr \<longrightarrow>
             (\<forall>t \<in> set (wordRuns [] expr). isIdentifier t \<longrightarrow> substitutable ntv t)"
  shows "evaluateOne rt ntv fd flds =
           (case substitutedOutcome rt ntv fd of
              None \<Rightarrow> Inr flds
            | Some (Inl msg) \<Rightarrow> Inl (FormulaEvaluationError (fd_name fd) msg)
            | Some (Inr v) \<Rightarrow> Inr (AList.update (fd_name fd) v flds))"
proof (cases "fd_type fd = ''formula''")
  case False
  then show ?thesis by (simp add: evaluateOne_def substitutedOutcome_def)
next
  case True
  show ?thesis
  proof (cases "fd_expression fd")
    case None
    with True show ?thesis by (simp add: evaluateOne_def substitutedOutcome_def)
  next
    case (Some expr)
    with True assms have
      "\<forall>t \<in> set (wordRuns [] expr). isIdentifier t \<longrightarrow> substitutable ntv t" by simp
    from replaceIdentifiers_substitutable [OF this, of rt "fd_name fd"] True Some
    show ?thesis
      by (simp add: evaluateOne_def substitutedOutcome_def split: sum.splits)
  qed
qed

lemma evaluateEach_substituted:
  assumes "\<forall>fd \<in> set fds. \<forall>expr. fd_type fd = ''formula'' \<and> fd_expression fd = Some expr \<longrightarrow>
             (\<forall>t \<in> set (wordRuns [] expr). isIdentifier t \<longrightarrow> substitutable ntv t)"
  shows "evaluateEach rt ntv fds flds = applyOutcomes rt ntv fds flds"
  using assms
proof (induction fds arbitrary: flds)
  case Nil
  show ?case by simp
next
  case (Cons fd fds)
  from Cons.prems have one:
    "\<forall>expr. fd_type fd = ''formula'' \<and> fd_expression fd = Some expr \<longrightarrow>
             (\<forall>t \<in> set (wordRuns [] expr). isIdentifier t \<longrightarrow> substitutable ntv t)" by simp
  from Cons.prems have rest: "evaluateEach rt ntv fds f = applyOutcomes rt ntv fds f" for f
    using Cons.IH by simp
  show ?case
    by (simp add: evaluateOne_substituted [OF one] rest split: option.splits sum.splits)
qed

lemma applyOutcomes_Inl:
  assumes "applyOutcomes rt ntv fds flds = Inl e"
  shows "\<exists>fd \<in> set fds. \<exists>msg. substitutedOutcome rt ntv fd = Some (Inl msg)
            \<and> e = FormulaEvaluationError (fd_name fd) msg"
  using assms
proof (induction fds arbitrary: flds)
  case Nil
  then show ?case by simp
next
  case (Cons fd fds)
  show ?case
  proof (cases "substitutedOutcome rt ntv fd")
    case None
    with Cons.prems have "applyOutcomes rt ntv fds flds = Inl e" by simp
    from Cons.IH [OF this] show ?thesis by auto
  next
    case (Some out)
    show ?thesis
    proof (cases out)
      case (Inl msg)
      with Some Cons.prems show ?thesis by auto
    next
      case (Inr v)
      with Some Cons.prems have
        "applyOutcomes rt ntv fds (AList.update (fd_name fd) v flds) = Inl e" by simp
      from Cons.IH [OF this] show ?thesis by auto
    qed
  qed
qed

lemma applyOutcomes_Inr:
  assumes "applyOutcomes rt ntv fds flds = Inr flds'"
  shows "mapGet flds' k = mapGet flds k
         \<or> (\<exists>fd \<in> set fds. fd_name fd = k
               \<and> substitutedOutcome rt ntv fd = Some (Inr (mapGet flds' k)))"
  using assms
proof (induction fds arbitrary: flds)
  case Nil
  then show ?case by simp
next
  case (Cons fd fds)
  show ?case
  proof (cases "substitutedOutcome rt ntv fd")
    case None
    with Cons.prems have "applyOutcomes rt ntv fds flds = Inr flds'" by simp
    from Cons.IH [OF this] show ?thesis by auto
  next
    case (Some out)
    show ?thesis
    proof (cases out)
      case (Inl msg)
      with Some Cons.prems show ?thesis by simp
    next
      case (Inr v)
      with Some Cons.prems have
        "applyOutcomes rt ntv fds (AList.update (fd_name fd) v flds) = Inr flds'" by simp
      from Cons.IH [OF this] consider
        (later) "\<exists>d \<in> set fds. fd_name d = k
                   \<and> substitutedOutcome rt ntv d = Some (Inr (mapGet flds' k))"
        | (same) "mapGet flds' k = mapGet (AList.update (fd_name fd) v flds) k" by blast
      then show ?thesis
      proof cases
        case later
        then show ?thesis by auto
      next
        case same
        show ?thesis
        proof (cases "k = fd_name fd")
          case True
          with same Some Inr show ?thesis by (simp add: mapGet_update)
        next
          case False
          with same show ?thesis by (simp add: mapGet_update)
        qed
      qed
    qed
  qed
qed

lemma schemaValidate_Inl: "schemaValidate r = Inl e \<Longrightarrow> \<exists>p. e = SchemaValidationFailed p"
  unfolding schemaValidate_def by (auto split: if_splits)

lemma checkAmounts_Inl:
  assumes "checkAmounts fieldDefs flds = Inl e"
  shows "e = FinalAmountCount \<or> (\<exists>n. e = FinalAmountNotNumeric n)
         \<or> e = PartialPaymentNotNumeric \<or> e = PaidExceedsTotal"
proof (cases "filter fd_isFinalAmount fieldDefs")
  case Nil
  with assms show ?thesis by (simp add: checkAmounts_def)
next
  case (Cons fd rest)
  show ?thesis
  proof (cases rest)
    case (Cons fd2 rest2)
    with \<open>filter fd_isFinalAmount fieldDefs = fd # rest\<close> assms show ?thesis
      by (simp add: checkAmounts_def)
  next
    case Nil
    with \<open>filter fd_isFinalAmount fieldDefs = fd # rest\<close> assms show ?thesis
      unfolding checkAmounts_def
      by (auto split: if_splits jsval.splits)
  qed
qed

lemma preSave_resolved:
  assumes "validateReferences db r = Inr fieldDefs"
  shows "preSave rt db r =
           (case schemaValidate r of
              Inl e \<Rightarrow> Inl e
            | Inr u \<Rightarrow>
                (case evaluateFormulas rt (r_fields r) fieldDefs of
                   Inl e \<Rightarrow> Inl e
                 | Inr flds \<Rightarrow>
                     (case checkAmounts fieldDefs flds of
                        Inl e \<Rightarrow> Inl e
                      | Inr u \<Rightarrow> Inr (r\<lparr>r_fields := flds\<rparr>))))"
proof -
  have e: "(if length fieldDefs > 0 then evaluateFormulas rt (r_fields r) fieldDefs
            else Inr (r_fields r)) = evaluateFormulas rt (r_fields r) fieldDefs"
    by (cases fieldDefs) (simp_all add: evaluateFormulas_def)
  show ?thesis
    unfolding preSave_def assms sum.case e ..
qed

text \<open>
  C1, as claimed: a formula whose expression holds an identifier that does not resolve
  through the name-to-value lookup fails with an UnresolvedFieldError and is never
  computed with 0 in its place. The code has no such error. At the sample store the
  formula \<open>total = amount + typo\<close>, on a record with \<open>amount = 5\<close>, is saved with
  \<open>total = 5\<close>: \<open>typo\<close> is not in the lookup, and the text handed on is \<open>5 + 0\<close>.
\<close>

theorem unresolved_identifier_counterexample:
  "preSave sampleRuntime sampleDb
     (sampleRecord ''n1'' ''approved''
        [(''amount'', JNum (Finite 5)), (''total'', JNum (Finite 0))])
     = Inr (sampleRecord ''n1'' ''approved''
              [(''amount'', JNum (Finite 5)), (''total'', JNum (Finite 5))])
   \<and> fd_expression (formulaDef ''f2'' ''total'' ''amount + typo'') = Some ''amount + typo''
   \<and> nameToValue
        [numberDef ''f1'' ''amount'' True, formulaDef ''f2'' ''total'' ''amount + typo'']
        [(''amount'', JNum (Finite 5)), (''total'', JNum (Finite 0))] Map.empty ''typo'' = None
   \<and> replaceIdentifiers
        (replaceCallback sampleRuntime
           (nameToValue
              [numberDef ''f1'' ''amount'' True, formulaDef ''f2'' ''total'' ''amount + typo'']
              [(''amount'', JNum (Finite 5)), (''total'', JNum (Finite 0))] Map.empty)
           ''total'')
        ''amount + typo'' = Inr ''5 + 0''"
  by (simp add: sample_defs preSave_def schemaValidate_def validateReferences_def typeAllowed_def
      evaluateFormulas_def evaluateOne_def nameToDefTruthy_def replaceIdentifiers_def
      replaceCallback_def isWordChar_def isIdentStart_def checkAmounts_def mapGet_def mapHas_def
      objectPrototypeNames_def)

text \<open>
  C1, amended. Let \<open>ntv\<close> be the name-to-value lookup built from the record's field
  values. An identifier that names nothing (no key of the lookup, no property inherited
  from \<open>Object.prototype\<close>) is replaced by the text \<open>0\<close>, and no error is raised for it.
  Let moreover the record's field names resolve to the definitions \<open>fieldDefs\<close>
  (validateReferences succeeds), and let every identifier of every formula expression
  either name a number in the lookup or name nothing. Then:
  \<^item> each formula is evaluated on the text of its expression with every resolved
    identifier replaced by the text of its number and every unresolved one by \<open>0\<close>, and
    evaluateFormulas is the run of these evaluations over the definitions in order;
  \<^item> evaluateFormulas fails only with the evaluation error of a formula whose evaluation
    on the substituted text threw, carrying the thrown message;
  \<^item> save is the schema validation, then that run, then the checks of the final amount and
    of the partial payment, then the write;
  \<^item> save fails only with a schema error, with such an evaluation error, or with an error
    of the final amount or partial payment checks: no error names the missing field;
  \<^item> whenever save succeeds, the saved record is in the store and each of its field
    values is the value the record carried or the value returned by the evaluation, on
    the substituted text, of a formula of that name.
\<close>

theorem unresolved_identifier_becomes_zero:
  fixes rt db r fieldDefs
  defines "ntv \<equiv> nameToValue fieldDefs (r_fields r) Map.empty"
  shows "(\<forall>m. isIdentifier m \<and> ntv m = None \<and> m \<notin> set objectPrototypeNames \<longrightarrow>
            (\<forall>n. replaceCallback rt ntv n m = Inr ''0'') \<and> substituteRun rt ntv m = ''0'')
         \<and> (validateReferences db r = Inr fieldDefs
            \<and> (\<forall>fd \<in> set fieldDefs. \<forall>expr.
                  fd_type fd = ''formula'' \<and> fd_expression fd = Some expr \<longrightarrow>
                  (\<forall>t \<in> set (wordRuns [] expr). isIdentifier t \<longrightarrow> substitutable ntv t))
            \<longrightarrow>
            (\<forall>fd \<in> set fieldDefs. formulaOutcome rt ntv fd = substitutedOutcome rt ntv fd)
            \<and> evaluateFormulas rt (r_fields r) fieldDefs
                = applyOutcomes rt ntv fieldDefs (r_fields r)
            \<and> (\<forall>e. evaluateFormulas rt (r_fields r) fieldDefs = Inl e \<longrightarrow>
                  (\<exists>fd \<in> set fieldDefs. \<exists>msg.
                     substitutedOutcome rt ntv fd = Some (Inl msg)
                     \<and> e = FormulaEvaluationError (fd_name fd) msg))
            \<and> save rt db r =
                (case schemaValidate r of
                   Inl e \<Rightarrow> Inl e
                 | Inr u \<Rightarrow>
                     (case applyOutcomes rt ntv fieldDefs (r_fields r) of
                        Inl e \<Rightarrow> Inl e
                      | Inr flds \<Rightarrow>
                          (case checkAmounts fieldDefs flds of
                             Inl e \<Rightarrow> Inl e
                           | Inr u \<Rightarrow>
                               Inr (r\<lparr>r_fields := flds\<rparr>,
                                    db\<lparr>financeRecords :=
                                         storeRecord (r\<lparr>r_fields := flds\<rparr>)
                                           (financeRecords db)\<rparr>))))
            \<and> (\<forall>e. save rt db r = Inl e \<longrightarrow>
                  (\<exists>p. e = SchemaValidationFailed p)
                  \<or> (\<exists>fd \<in> set fieldDefs. \<exists>msg.
                        substitutedOutcome rt ntv fd = Some (Inl msg)
                        \<and> e = FormulaEvaluationError (fd_name fd) msg)
                  \<or> e = FinalAmountCount \<or> (\<exists>n. e = FinalAmountNotNumeric n)
                  \<or> e = PartialPaymentNotNumeric \<or> e = PaidExceedsTotal)
            \<and> (\<forall>saved db'. save rt db r = Inr (saved, db') \<longrightarrow>
                  saved \<in> set (financeRecords db')
                  \<and> (\<forall>k. mapGet (r_fields saved) k = mapGet (r_fields r) k
                         \<or> (\<exists>fd \<in> set fieldDefs. fd_name fd = k
                               \<and> substitutedOutcome rt ntv fd
                                   = Some (Inr (mapGet (r_fields saved) k))))))"
proof (rule conjI)
  show "\<forall>m. isIdentifier m \<and> ntv m = None \<and> m \<notin> set objectPrototypeNames \<longrightarrow>
            (\<forall>n. replaceCallback rt ntv n m = Inr ''0'') \<and> substituteRun rt ntv m = ''0''"
    by (simp add: replaceCallback_def substituteRun_def)
next
  show "validateReferences db r = Inr fieldDefs
            \<and> (\<forall>fd \<in> set fieldDefs. \<forall>expr.
                  fd_type fd = ''formula'' \<and> fd_expression fd = Some expr \<longrightarrow>
                  (\<forall>t \<in> set (wordRuns [] expr). isIdentifier t \<longrightarrow> substitutable ntv t))
            \<longrightarrow>
            (\<forall>fd \<in> set fieldDefs. formulaOutcome rt ntv fd = substitutedOutcome rt ntv fd)
            \<and> evaluateFormulas rt (r_fields r) fieldDefs
                = applyOutcomes rt ntv fieldDefs (r_fields r)
            \<and> (\<forall>e. evaluateFormulas rt (r_fields r) fieldDefs = Inl e \<longrightarrow>
                  (\<exists>fd \<in> set fieldDefs. \<exists>msg.
                     substitutedOutcome rt ntv fd = Some (Inl msg)
                     \<and> e = FormulaEvaluationError (fd_name fd) msg))
            \<and> save rt db r =
                (case schemaValidate r of
                   Inl e \<Rightarrow> Inl e
                 | Inr u \<Rightarrow>
                     (case applyOutcomes rt ntv fieldDefs (r_fields r) of
                        Inl e \<Rightarrow> Inl e
                      | Inr flds \<Rightarrow>
                          (case checkAmounts fieldDefs flds of
                             Inl e \<Rightarrow> Inl e
                           | Inr u \<Rightarrow>
                               Inr (r\<lparr>r_fields := flds\<rparr>,
                                    db\<lparr>financeRecords :=
                                         storeRecord (r\<lparr>r_fields := flds\<rparr>)
                                           (financeRecords db)\<rparr>))))
            \<and> (\<forall>e. save rt db r = Inl e \<longrightarrow>
                  (\<exists>p. e = SchemaValidationFailed p)
                  \<or> (\<exists>fd \<in> set fieldDefs. \<exists>msg.
                        substitutedOutcome rt ntv fd = Some (Inl msg)
                        \<and> e = FormulaEvaluationError (fd_name fd) msg)
                  \<or> e = FinalAmountCount \<or> (\<exists>n. e = FinalAmountNotNumeric n)
                  \<or> e = PartialPaymentNotNumeric \<or> e = PaidExceedsTotal)
            \<and> (\<forall>saved db'. save rt db r = Inr (saved, db') \<longrightarrow>
                  saved \<in> set (financeRecords db')
                  \<and> (\<forall>k. mapGet (r_fields saved) k = mapGet (r_fields r) k
                         \<or> (\<exists>fd \<in> set fieldDefs. fd_name fd = k
                               \<and> substitutedOutcome rt ntv fd
                                   = Some (Inr (mapGet (r_fields saved) k)))))"
  proof (rule impI)
    assume vh: "validateReferences db r = Inr fieldDefs
            \<and> (\<forall>fd \<in> set fieldDefs. \<forall>expr.
                  fd_type fd = ''formula'' \<and> fd_expression fd = Some expr \<longrightarrow>
                  (\<forall>t \<in> set (wordRuns [] expr). isIdentifier t \<longrightarrow> substitutable ntv t))"
    note v = vh [THEN conjunct1]
    note h = vh [THEN conjunct2]
    have o: "\<forall>fd \<in> set fieldDefs. formulaOutcome rt ntv fd = substitutedOutcome rt ntv fd"
    proof
      fix fd assume "fd \<in> set fieldDefs"
      with h have "\<forall>expr. fd_type fd = ''formula'' \<and> fd_expression fd = Some expr \<longrightarrow>
               (\<forall>t \<in> set (wordRuns [] expr). isIdentifier t \<longrightarrow> substitutable ntv t)" by blast
      then show "formulaOutcome rt ntv fd = substitutedOutcome rt ntv fd"
        by (rule formulaOutcome_substituted)
    qed
    have ev: "evaluateFormulas rt (r_fields r) fieldDefs
               = applyOutcomes rt ntv fieldDefs (r_fields r)"
      unfolding evaluateFormulas_def ntv_def [symmetric]
      by (rule evaluateEach_substituted [OF h])
    let ?run = "applyOutcomes rt ntv fieldDefs (r_fields r)"
    have ef: "\<forall>e. evaluateFormulas rt (r_fields r) fieldDefs = Inl e \<longrightarrow>
                  (\<exists>fd \<in> set fieldDefs. \<exists>msg.
                     substitutedOutcome rt ntv fd = Some (Inl msg)
                     \<and> e = FormulaEvaluationError (fd_name fd) msg)"
      unfolding ev using applyOutcomes_Inl [of rt ntv fieldDefs "r_fields r"] by blast
    have sv: "save rt db r =
               (case schemaValidate r of
                  Inl e \<Rightarrow> Inl e
                | Inr u \<Rightarrow>
                    (case ?run of
                       Inl e \<Rightarrow> Inl e
                     | Inr flds \<Rightarrow>
                         (case checkAmounts fieldDefs flds of
                            Inl e \<Rightarrow> Inl e
                          | Inr u \<Rightarrow>
                              Inr (r\<lparr>r_fields := flds\<rparr>,
                                   db\<lparr>financeRecords :=
                                        storeRecord (r\<lparr>r_fields := flds\<rparr>)
                                          (financeRecords db)\<rparr>))))"
      unfolding save_def preSave_resolved [OF v] ev
      by (simp split: sum.splits)
    have er: "(\<exists>p. e = SchemaValidationFailed p)
                 \<or> (\<exists>fd \<in> set fieldDefs. \<exists>msg.
                       substitutedOutcome rt ntv fd = Some (Inl msg)
                       \<and> e = FormulaEvaluationError (fd_name fd) msg)
                 \<or> e = FinalAmountCount \<or> (\<exists>n. e = FinalAmountNotNumeric n)
                 \<or> e = PartialPaymentNotNumeric \<or> e = PaidExceedsTotal"
      if f: "save rt db r = Inl e" for e
    proof (cases "schemaValidate r")
      case (Inl x)
      with f sv have "e = x" by simp
      with schemaValidate_Inl [OF Inl] show ?thesis by blast
    next
      case sok: (Inr u)
      show ?thesis
      proof (cases ?run)
        case (Inl x)
        with f sv sok have "e = x" by simp
        with applyOutcomes_Inl [OF Inl] show ?thesis by blast
      next
        case rok: (Inr flds)
        show ?thesis
        proof (cases "checkAmounts fieldDefs flds")
          case (Inl x)
          with f sv sok rok have "e = x" by simp
          with checkAmounts_Inl [OF Inl] show ?thesis by blast
        next
          case (Inr u2)
          with f sv sok rok show ?thesis by simp
        qed
      qed
    qed
    have ok: "saved \<in> set (financeRecords db')
                 \<and> (\<forall>k. mapGet (r_fields saved) k = mapGet (r_fields r) k
                        \<or> (\<exists>fd \<in> set fieldDefs. fd_name fd = k
                              \<and> substitutedOutcome rt ntv fd
                                  = Some (Inr (mapGet (r_fields saved) k))))"
      if f: "save rt db r = Inr (saved, db')" for saved db'
    proof (cases "schemaValidate r")
      case (Inl x)
      with f sv show ?thesis by simp
    next
      case sok: (Inr u)
      show ?thesis
      proof (cases ?run)
        case (Inl x)
        with f sv sok show ?thesis by simp
      next
        case rok: (Inr flds)
        show ?thesis
        proof (cases "checkAmounts fieldDefs flds")
          case (Inl x)
          with f sv sok rok show ?thesis by simp
        next
          case (Inr u2)
          with f sv sok rok have s: "saved = r\<lparr>r_fields := flds\<rparr>"
            and d: "db' = db\<lparr>financeRecords := storeRecord saved (financeRecords db)\<rparr>"
            by auto
          from d have "saved \<in> set (financeRecords db')" by (simp add: storeRecord_member)
          moreover have "mapGet (r_fields saved) k = mapGet (r_fields r) k
                        \<or> (\<exists>fd \<in> set fieldDefs. fd_name fd = k
                              \<and> substitutedOutcome rt ntv fd
                                  = Some (Inr (mapGet (r_fields saved) k)))" for k
            using applyOutcomes_Inr [OF rok, of k] s by simp
          ultimately show ?thesis by blast
        qed
      qed
    qed
    from er have er': "\<forall>e. save rt db r = Inl e \<longrightarrow>
                 (\<exists>p. e = SchemaValidationFailed p)
                 \<or> (\<exists>fd \<in> set fieldDefs. \<exists>msg.
                       substitutedOutcome rt ntv fd = Some (Inl msg)
                       \<and> e = FormulaEvaluationError (fd_name fd) msg)
                 \<or> e = FinalAmountCount \<or> (\<exists>n. e = FinalAmountNotNumeric n)
                 \<or> e = PartialPaymentNotNumeric \<or> e = PaidExceedsTotal"
      by (intro allI impI)
    from ok have ok': "\<forall>saved db'. save rt db r = Inr (saved, db') \<longrightarrow>
                 saved \<in> set (financeRecords db')
                 \<and> (\<forall>k. mapGet (r_fields saved) k = mapGet (r_fields r) k
                        \<or> (\<exists>fd \<in> set fieldDefs. fd_name fd = k
                              \<and> substitutedOutcome rt ntv fd
                                  = Some (Inr (mapGet (r_fields saved) k))))"
      by (intro allI impI)
    from o ev ef sv er' ok' show
      "(\<forall>fd \<in> set fieldDefs. formulaOutcome rt ntv fd = substitutedOutcome rt ntv fd)
            \<and> evaluateFormulas rt (r_fields r) fieldDefs
                = applyOutcomes rt ntv fieldDefs (r_fields r)
            \<and> (\<forall>e. evaluateFormulas rt (r_fields r) fieldDefs = Inl e \<longrightarrow>
                  (\<exists>fd \<in> set fieldDefs. \<exists>msg.
                     substitutedOutcome rt ntv fd = Some (Inl msg)
                     \<and> e = FormulaEvaluationError (fd_name fd) msg))
            \<and> save rt db r =
                (case schemaValidate r of
                   Inl e \<Rightarrow> Inl e
                 | Inr u \<Rightarrow>
                     (case applyOutcomes rt ntv fieldDefs (r_fields r) of
                        Inl e \<Rightarrow> Inl e
                      | Inr flds \<Rightarrow>
                          (case checkAmounts fieldDefs flds of
                             Inl e \<Rightarrow> Inl e
                           | Inr u \<Rightarrow>
                               Inr (r\<lparr>r_fields := flds\<rparr>,
                                    db\<lparr>financeRecords :=
                                         storeRecord (r\<lparr>r_fields := flds\<rparr>)
                                           (financeRecords db)\<rparr>))))
            \<and> (\<forall>e. save rt db r = Inl e \<longrightarrow>
                  (\<exists>p. e = SchemaValidationFailed p)
                  \<or> (\<exists>fd \<in> set fieldDefs. \<exists>msg.
                        substitutedOutcome rt ntv fd = Some (Inl msg)
                        \<and> e = FormulaEvaluationError (fd_name fd) msg)
                  \<or> e = FinalAmountCount \<or> (\<exists>n. e = FinalAmountNotNumeric n)
                  \<or> e = PartialPaymentNotNumeric \<or> e = PaidExceedsTotal)
            \<and> (\<forall>saved db'. save rt db r = Inr (saved, db') \<longrightarrow>
                  saved \<in> set (financeRecords db')
                  \<and> (\<forall>k. mapGet (r_fields saved) k = mapGet (r_fields r) k
                         \<or> (\<exists>fd \<in> set fieldDefs. fd_name fd = k
                               \<and> substitutedOutcome rt ntv fd
                                   = Some (Inr (mapGet (r_fields saved) k)))))"
      by (intro conjI)
  qed
qed

theorem unresolved_identifier_becomes_zero_witness:
  "save sampleRuntime sampleDb
     (sampleRecord ''n1'' ''approved''
        [(''amount'', JNum (Finite 5)), (''total'', JNum (Finite 0))])
     = Inr (sampleRecord ''n1'' ''approved''
              [(''amount'', JNum (Finite 5)), (''total'', JNum (Finite 5))],
            sampleDb\<lparr>financeRecords := financeRecords sampleDb
               @ [sampleRecord ''n1'' ''approved''
                    [(''amount'', JNum (Finite 5)), (''total'', JNum (Finite 5))]]\<rparr>)
   \<and> evaluateFormulas sampleRuntime
       [(''amount'', JNum (Finite 5)), (''total'', JNum (Finite 0))]
       [numberDef ''f1'' ''amount'' True, formulaDef ''f2'' ''total'' ''amount + typo'']
       = Inr [(''amount'', JNum (Finite 5)), (''total'', JNum (Finite 5))]
   \<and> nameToValue
        [numberDef ''f1'' ''amount'' True, formulaDef ''f2'' ''total'' ''amount + typo'']
        [(''amount'', JNum (Finite 5)), (''total'', JNum (Finite 0))] Map.empty ''typo'' = None
   \<and> replaceCallback sampleRuntime
        (nameToValue
           [numberDef ''f1'' ''amount'' True, formulaDef ''f2'' ''total'' ''amount + typo'']
           [(''amount'', JNum (Finite 5)), (''total'', JNum (Finite 0))] Map.empty)
        ''total'' ''typo'' = Inr ''0''
   \<and> formulaOutcome sampleRuntime
        (nameToValue
           [numberDef ''f1'' ''amount'' True, formulaDef ''f2'' ''total'' ''amount + typo'']
           [(''amount'', JNum (Finite 5)), (''total'', JNum (Finite 0))] Map.empty)
        (formulaDef ''f2'' ''total'' ''amount + typo'')
       = Some (FunctionCall sampleRuntime (functionSource ''5 + 0''))
   \<and> FunctionCall sampleRuntime (functionSource ''5 + 0'') = Inr (JNum (Finite 5))
   \<and> evaluateFormulas sampleRuntime
       [(''amount'', JNum (Finite 5)), (''total'', JNum (Finite 0)), (''net'', JNum (Finite 5))]
       [numberDef ''f1'' ''amount'' True, formulaDef ''f2'' ''total'' ''amount + typo'',
        numberDef ''f4'' ''net'' True]
       = Inr [(''amount'', JNum (Finite 5)), (''total'', JNum (Finite 5)),
              (''net'', JNum (Finite 5))]
   \<and> save sampleRuntime sampleDb
       (sampleRecord ''n2'' ''approved''
          [(''amount'', JNum (Finite 5)), (''total'', JNum (Finite 0)),
           (''net'', JNum (Finite 5))])
       = Inl FinalAmountCount"
proof -
  let ?flds = "[(''amount'', JNum (Finite 5)), (''total'', JNum (Finite 0))]"
  let ?flds' = "[(''amount'', JNum (Finite 5)), (''total'', JNum (Finite 5))]"
  let ?f2 = "formulaDef ''f2'' ''total'' ''amount + typo''"
  let ?defs = "[numberDef ''f1'' ''amount'' True, ?f2]"
  let ?ntv = "nameToValue ?defs ?flds Map.empty"
  let ?r = "sampleRecord ''n1'' ''approved'' ?flds"
  let ?flds3 = "[(''amount'', JNum (Finite 5)), (''total'', JNum (Finite 0)),
                 (''net'', JNum (Finite 5))]"
  let ?flds3' = "[(''amount'', JNum (Finite 5)), (''total'', JNum (Finite 5)),
                  (''net'', JNum (Finite 5))]"
  let ?defs3 = "[numberDef ''f1'' ''amount'' True, ?f2, numberDef ''f4'' ''net'' True]"
  let ?ntv3 = "nameToValue ?defs3 ?flds3 Map.empty"
  let ?r3 = "sampleRecord ''n2'' ''approved'' ?flds3"
  have rf: "r_fields (sampleRecord i st f) = f" for i st f
    by (simp add: sampleRecord_def)
  have runs: "wordRuns [] ''amount + typo'' = [''amount'', '' '', ''+'', '' '', ''typo'']"
    by (simp add: isWordChar_def isIdentStart_def)
  have nv: "?ntv ''amount'' = Some (JNum (Finite 5))" "?ntv ''typo'' = None"
    by (simp_all add: nameToDefTruthy_def numberDef_def formulaDef_def objectPrototypeNames_def)
  have nv3: "?ntv3 ''amount'' = Some (JNum (Finite 5))" "?ntv3 ''typo'' = None"
    by (simp_all add: nameToDefTruthy_def numberDef_def formulaDef_def objectPrototypeNames_def)
  have sub: "isIdentifier ''typo''" "''typo'' \<notin> set objectPrototypeNames"
    by (simp_all add: isIdentifier_def isIdentStart_def objectPrototypeNames_def)
  have sel: "fd_type (numberDef i n b) = ''number''" "fd_type (formulaDef i n x) = ''formula''"
    "fd_expression (formulaDef i n x) = Some x" for i n b x
    by (simp_all add: numberDef_def formulaDef_def)
  have idf: "isIdentifier ''amount''" "\<not> isIdentifier '' ''" "\<not> isIdentifier ''+''"
    by (simp_all add: isIdentifier_def isIdentStart_def)
  have v: "validateReferences sampleDb ?r = Inr ?defs"
    by (simp add: sample_defs validateReferences_def typeAllowed_def)
  have v3: "validateReferences sampleDb ?r3 = Inr ?defs3"
    by (simp add: sample_defs validateReferences_def typeAllowed_def)
  have hf2: "\<forall>t \<in> set (wordRuns [] ''amount + typo''). isIdentifier t \<longrightarrow> substitutable ntv t"
    if "ntv ''amount'' = Some (JNum (Finite 5))" and "ntv ''typo'' = None" for ntv
    unfolding runs using that by (simp add: idf sub substitutable_def)
  have h: "\<forall>fd \<in> set ?defs. \<forall>expr.
              fd_type fd = ''formula'' \<and> fd_expression fd = Some expr \<longrightarrow>
              (\<forall>t \<in> set (wordRuns [] expr). isIdentifier t \<longrightarrow>
                 substitutable (nameToValue ?defs (r_fields ?r) Map.empty) t)"
    unfolding rf using hf2 [OF nv] by (simp add: sel del: wordRuns.simps)
  have h3: "\<forall>fd \<in> set ?defs3. \<forall>expr.
              fd_type fd = ''formula'' \<and> fd_expression fd = Some expr \<longrightarrow>
              (\<forall>t \<in> set (wordRuns [] expr). isIdentifier t \<longrightarrow>
                 substitutable (nameToValue ?defs3 (r_fields ?r3) Map.empty) t)"
    unfolding rf using hf2 [OF nv3] by (simp add: sel del: wordRuns.simps)
  note Z = unresolved_identifier_becomes_zero
    [where rt = sampleRuntime and r = ?r and fieldDefs = ?defs, THEN conjunct1, unfolded rf]
  note T = unresolved_identifier_becomes_zero
    [where rt = sampleRuntime, THEN conjunct2, THEN mp, OF conjI [OF v h], unfolded rf]
  note T3 = unresolved_identifier_becomes_zero
    [where rt = sampleRuntime, THEN conjunct2, THEN mp, OF conjI [OF v3 h3], unfolded rf]
  have subst: "substituteText sampleRuntime ntv ''amount + typo'' = ''5 + 0''"
    if "ntv ''amount'' = Some (JNum (Finite 5))" and "ntv ''typo'' = None" for ntv
    unfolding substituteText_def runs using that
    by (simp add: substituteRun_def isIdentifier_def isIdentStart_def sampleRuntime_def
        sampleNumberToString_def)
  have call: "FunctionCall sampleRuntime (functionSource ''5 + 0'') = Inr (JNum (Finite 5))"
    by (simp add: sampleRuntime_def sampleFunctionCall_def)
  have out: "substitutedOutcome sampleRuntime ntv ?f2
               = Some (FunctionCall sampleRuntime (functionSource ''5 + 0''))"
    "substitutedOutcome sampleRuntime ntv (numberDef i n b) = None"
    if "ntv ''amount'' = Some (JNum (Finite 5))" and "ntv ''typo'' = None" for ntv i n b
    by (simp_all add: substitutedOutcome_def subst [OF that] formulaDef_def numberDef_def)
  have name: "fd_name (formulaDef i n x) = n" for i n x
    by (simp add: formulaDef_def)
  have runs2: "applyOutcomes sampleRuntime ntv ?defs ?flds = Inr ?flds'"
    "applyOutcomes sampleRuntime ntv ?defs3 ?flds3 = Inr ?flds3'"
    if "ntv ''amount'' = Some (JNum (Finite 5))" and "ntv ''typo'' = None" for ntv
    by (simp_all add: out [OF that] call name)
  have run: "applyOutcomes sampleRuntime ?ntv ?defs ?flds = Inr ?flds'"
    by (rule runs2(1) [OF nv])
  have run3: "applyOutcomes sampleRuntime ?ntv3 ?defs3 ?flds3 = Inr ?flds3'"
    by (rule runs2(2) [OF nv3])
  have chk: "schemaValidate ?r = Inr ()" "checkAmounts ?defs ?flds' = Inr ()"
    "schemaValidate ?r3 = Inr ()" "checkAmounts ?defs3 ?flds3' = Inl FinalAmountCount"
    by (simp_all add: schemaValidate_def checkAmounts_def sampleRecord_def numberDef_def
        formulaDef_def mapGet_def mapHas_def)
  have upd: "(sampleRecord i st f)\<lparr>r_fields := g\<rparr> = sampleRecord i st g" for i st f g
    by (simp add: sampleRecord_def)
  have st: "storeRecord (sampleRecord ''n1'' s f) (financeRecords sampleDb)
              = financeRecords sampleDb @ [sampleRecord ''n1'' s f]" for s f
    by (simp add: storeRecord_def sampleDb_def sampleRecord_def)
  have one: "save sampleRuntime sampleDb ?r
      = Inr (sampleRecord ''n1'' ''approved'' ?flds',
             sampleDb\<lparr>financeRecords := financeRecords sampleDb
                @ [sampleRecord ''n1'' ''approved'' ?flds']\<rparr>)"
    using T [THEN conjunct2, THEN conjunct2, THEN conjunct2, THEN conjunct1]
    unfolding run chk sum.case upd st .
  have two: "evaluateFormulas sampleRuntime ?flds ?defs = Inr ?flds'"
    using T [THEN conjunct2, THEN conjunct1] unfolding run .
  have three: "replaceCallback sampleRuntime ?ntv ''total'' ''typo'' = Inr ''0''"
    using Z [THEN spec, of "''typo''", THEN mp, THEN conjunct1,
             THEN spec, of "''total''"] sub nv by simp
  have four: "formulaOutcome sampleRuntime ?ntv ?f2
                = Some (FunctionCall sampleRuntime (functionSource ''5 + 0''))"
    using T [THEN conjunct1, THEN bspec, of ?f2] unfolding out [OF nv]
    by simp
  have five: "evaluateFormulas sampleRuntime ?flds3 ?defs3 = Inr ?flds3'"
    using T3 [THEN conjunct2, THEN conjunct1] unfolding run3 .
  have six: "save sampleRuntime sampleDb ?r3 = Inl FinalAmountCount"
    using T3 [THEN conjunct2, THEN conjunct2, THEN conjunct2, THEN conjunct1]
    unfolding run3 chk sum.case .
  from one two nv(2) three four call five six show ?thesis by (intro conjI)
qed

section \<open>Formulas: what evaluates the expression\<close>










section \<open>The final amount\<close>










section \<open>The partial payment\<close>

lemma checkAmounts_partial:
  assumes "checkAmounts fieldDefs flds = Inr u"
      and "mapHas flds ''total_amount''" and "mapHas flds ''amount_paid''"
  shows "\<exists>t p. mapGet flds ''total_amount'' = JNum t \<and> mapGet flds ''amount_paid'' = JNum p
           \<and> \<not> numLess t p"
  using assms unfolding checkAmounts_def Let_def
  by (auto split: list.splits if_splits jsval.splits)

lemma numLessEq_unless_NaN:
  "\<not> numLess t p \<Longrightarrow> t \<noteq> NaN \<Longrightarrow> p \<noteq> NaN \<Longrightarrow> numLessEq p t"
  by (cases t; cases p) simp_all

text \<open>What the hook does guarantee: on a persisted record that carries both fields, both
  values are numbers and \<open>paid > total\<close> is false; when neither is NaN, \<open>paid <= total\<close>.\<close>

lemma partial_payment_guard:
  assumes "preSave rt db r = Inr saved"
      and "mapHas (r_fields saved) ''total_amount''"
      and "mapHas (r_fields saved) ''amount_paid''"
  shows "\<exists>t p. mapGet (r_fields saved) ''total_amount'' = JNum t
           \<and> mapGet (r_fields saved) ''amount_paid'' = JNum p
           \<and> \<not> numLess t p \<and> (t \<noteq> NaN \<and> p \<noteq> NaN \<longrightarrow> numLessEq p t)"
proof -
  from assms(1) obtain fds fl where
    ca: "checkAmounts fds fl = Inr ()" and sv: "saved = r\<lparr>r_fields := fl\<rparr>"
    by (rule preSave_Inr)
  from sv assms(2,3) have "mapHas fl ''total_amount''" "mapHas fl ''amount_paid''" by simp_all
  from checkAmounts_partial [OF ca this] sv numLessEq_unless_NaN show ?thesis by auto
qed

text \<open>
  C8. The claim: on every persisted record that carries both \<open>total_amount\<close> and
  \<open>amount_paid\<close>, paid is less than or equal to total. The hook rejects when
  \<open>paid > total\<close>, which is false for NaN, and \<open>typeof NaN\<close> is \<open>number\<close>. At the sample
  store \<open>amount_paid\<close> is the formula \<open>0/0\<close>: a record with \<open>total_amount = 100\<close> is saved
  with \<open>amount_paid = NaN\<close>, and \<open>NaN <= 100\<close> is false.
\<close>

theorem partial_payment_nan:
  "preSave sampleRuntime sampleDb
     (sampleRecord ''n1'' ''approved''
        [(''total_amount'', JNum (Finite 100)), (''amount_paid'', JNum (Finite 0))])
     = Inr (sampleRecord ''n1'' ''approved''
              [(''total_amount'', JNum (Finite 100)), (''amount_paid'', JNum NaN)])
   \<and> fd_expression (formulaDef ''f6'' ''amount_paid'' ''0/0'') = Some ''0/0''
   \<and> \<not> numLessEq NaN (Finite 100)"
  by (simp add: sample_defs preSave_def schemaValidate_def validateReferences_def typeAllowed_def
      evaluateFormulas_def evaluateOne_def nameToDefTruthy_def replaceIdentifiers_def
      replaceCallback_def isWordChar_def isIdentStart_def checkAmounts_def mapGet_def mapHas_def
      objectPrototypeNames_def)

section \<open>deleteFieldDefinition: what the usage check tests\<close>

text \<open>For an administrator and a definition of the organization, the deletion is
  refused exactly when a record of the organization has a fields entry keyed by the
  identifier passed in the request, where the claim of C7 has the definition's name.\<close>

lemma deleteFieldDefinition_refuses_iff:
  assumes "isAdmin u orgId"
      and "find (\<lambda>fd. fd_id fd = fieldId) (fieldDefinitions db) = Some fieldDef"
      and "fd_orgId fieldDef = orgId"
  shows "fst (deleteFieldDefinition db u orgId fieldId)
           = Response 400 (Message ''Cannot delete a field definition in use.'')
         \<longleftrightarrow> fieldInUse db orgId fieldId"
proof -
  have "usageCount db orgId fieldId > 0 \<longleftrightarrow> fieldInUse db orgId fieldId"
    by (auto simp add: usageCount_def fieldInUse_def filter_empty_conv)
  with assms show ?thesis
    by (simp add: deleteFieldDefinition_def)
qed

end
